theory Spec2Isabelle
  imports Complex_Main "HOL-Library.Word"
begin

section \<open>JavaScript primitives used by the handlers\<close>

text \<open>
  A \<open>Buffer\<close> is a list of bytes. A thrown JavaScript value is an \<open>exn\<close>: the two
  built-in errors the handlers can provoke themselves, and \<open>Error msg\<close> for everything a
  collaborator (sharp, Rekognition, S3, Prisma) throws.
\<close>

type_synonym byte = "8 word"
type_synonym buffer = "byte list"

datatype exn = RangeError | TypeError | Error string

text \<open>
  \<open>String.prototype.toLowerCase\<close> on the ASCII letters (the only ones that can produce the
  characters of \<open>.heic\<close> or of a MIME type), and \<open>String.prototype.endsWith\<close>.
\<close>

definition toLowerCase_char :: "char \<Rightarrow> char" where
  "toLowerCase_char c =
     (case map_of (zip ''ABCDEFGHIJKLMNOPQRSTUVWXYZ'' ''abcdefghijklmnopqrstuvwxyz'') c of
        Some l \<Rightarrow> l
      | None \<Rightarrow> c)"

definition toLowerCase :: "string \<Rightarrow> string" where
  "toLowerCase s = map toLowerCase_char s"

definition endsWith :: "string \<Rightarrow> string \<Rightarrow> bool" where
  "endsWith s suf \<longleftrightarrow> length suf \<le> length s \<and> drop (length s - length suf) s = suf"

text \<open>
  A JavaScript array may be sparse: an index below \<open>length\<close> either holds a value or is an
  empty slot. The model is a list of slots, \<open>None\<close> for an empty slot; reading an empty slot
  yields \<open>undefined\<close>, which is also written \<open>None\<close>.

  \<^item> \<open>new Array(n)\<close> has length \<open>n\<close> and \<open>n\<close> empty slots; it throws a RangeError unless
    \<open>n\<close> is an integer in \<open>[0, 2^32)\<close>.
  \<^item> \<open>a[i] = v\<close> fills slot \<open>i\<close>; beyond the end it first extends the array with empty
    slots. A negative key (or one from \<open>2^32 - 1\<close> on) is an ordinary property: no slot of
    the array changes.
  \<^item> \<open>Array.prototype.every\<close> calls its callback only for the indices that exist
    (ECMA-262, Array.prototype.every: the callback runs under \<open>kPresent\<close>); an empty slot
    is never passed to it.
  \<^item> \<open>Buffer.concat(list)\<close> reads \<open>list[i].length\<close> for every \<open>i < list.length\<close>; on an
    empty slot that is a property read on \<open>undefined\<close>, a TypeError.
\<close>

type_synonym 'a js_array = "'a option list"

definition new_Array :: "int \<Rightarrow> exn + 'a js_array" where
  "new_Array n = (if 0 \<le> n \<and> n < 2 ^ 32 then Inr (replicate (nat n) None) else Inl RangeError)"

definition array_set :: "'a js_array \<Rightarrow> int \<Rightarrow> 'a \<Rightarrow> 'a js_array" where
  "array_set xs i v =
     (if i < 0 \<or> 2 ^ 32 - 1 \<le> i then xs
      else if nat i < length xs then xs[nat i := Some v]
      else xs @ replicate (nat i - length xs) None @ [Some v])"

definition js_every :: "('a option \<Rightarrow> bool) \<Rightarrow> 'a js_array \<Rightarrow> bool" where
  "js_every callback xs = list_all callback (filter (\<lambda>slot. slot \<noteq> None) xs)"

fun Buffer_concat :: "buffer js_array \<Rightarrow> exn + buffer" where
  "Buffer_concat [] = Inr []"
| "Buffer_concat (None # rest) = Inl TypeError"
| "Buffer_concat (Some b # rest) =
     (case Buffer_concat rest of Inl e \<Rightarrow> Inl e | Inr r \<Rightarrow> Inr (b @ r))"

text \<open>
  A JavaScript number that may be \<open>NaN\<close>: the blur score is \<open>variance / count\<close>, which is
  \<open>0 / 0\<close> for an image without interior pixels. \<open>NaN < x\<close> is false.
\<close>

datatype jsnum = NaN | Num real

fun js_less :: "jsnum \<Rightarrow> real \<Rightarrow> bool" where
  "js_less NaN x = False"
| "js_less (Num v) x = (v < x)"

text \<open>
  The numbers of a request body are IEEE doubles; the model holds the integral ones as
  \<open>int\<close>. A double has a significand of 53 bits: \<open>round_to_double\<close> rounds an integer to
  the nearest double, ties to the even significand, and \<open>js_add\<close> is the \<open>+\<close> of two
  integral doubles, the rounded exact sum. Below \<open>2^53\<close> in magnitude nothing is rounded.
  (No sum in the handlers comes near \<open>2^1024\<close>, where a double overflows.)
\<close>

fun bit_length :: "nat \<Rightarrow> nat" where
  "bit_length n = (if n = 0 then 0 else Suc (bit_length (n div 2)))"

declare bit_length.simps [simp del]

definition round_to_double :: "int \<Rightarrow> int" where
  "round_to_double x =
     (let m = nat \<bar>x\<bar>; bits = bit_length m
      in if bits \<le> 53 then x
         else (let u = 2 ^ (bits - 53); q = m div u; r = m mod u;
                   q' = (if 2 * r < u \<or> (2 * r = u \<and> even q) then q else q + 1)
               in sgn x * int (q' * u)))"

definition js_add :: "int \<Rightarrow> int \<Rightarrow> int" where
  "js_add a b = round_to_double (a + b)"

text \<open>\<open>x || 0\<close> on an optional number.\<close>

definition or_zero :: "'a::zero option \<Rightarrow> 'a" where
  "or_zero x = (case x of None \<Rightarrow> 0 | Some v \<Rightarrow> v)"


section \<open>Data model (src/types/index.ts)\<close>

text \<open>
  The rejection reasons that \<open>validateImage\<close> pushes onto \<open>errors\<close>. Each constructor stands
  for one message template of the source and carries the values the template prints.
\<close>

datatype reason =
    ImageTooSmall nat nat
  | ImageTooLarge nat nat
  | InvalidFormat string
  | FileTooLarge nat
  | Blurry jsnum
  | NoFaceDetected
  | MultipleFaces nat
  | FaceTooSmall real
  | FaceTooLarge real
  | FaceServiceUnavailable
  | ImageProcessingError exn

record image_metadata =
  md_width :: nat
  md_height :: nat
  md_size :: nat
  md_format :: string
  md_blurScore :: "jsnum option"
  md_faceCount :: "nat option"
  md_faceSize :: "real option"
  md_hash :: "string option"

record validation_result =
  isValid :: bool
  errors :: "reason list"
  metadata :: image_metadata

text \<open>\<open>imageConfig\<close> of config/env.ts: five integers parsed from the environment.\<close>

record image_config =
  minWidth :: nat
  minHeight :: nat
  maxWidth :: nat
  maxHeight :: nat
  maxFileSize :: nat

text \<open>What \<open>sharp(buffer).metadata()\<close> resolves to: every field may be undefined.\<close>

record sharp_info =
  info_width :: "nat option"
  info_height :: "nat option"
  info_format :: "string option"

text \<open>
  A Rekognition \<open>FaceDetail\<close>: an optional \<open>BoundingBox\<close> with optional \<open>Width\<close> and
  \<open>Height\<close>; the response has an optional \<open>FaceDetails\<close> list.
\<close>

type_synonym bounding_box = "real option \<times> real option"
type_synonym face_detail = "bounding_box option"
type_synonym detect_faces_response = "face_detail list option"

datatype image_target = JPEG | PNG

text \<open>
  \<open>imageProcessingService.convertToFormat\<close> is called by both upload handlers but is not
  part of the service file under src/ (which only has \<open>convertHeicToJpeg\<close>). Its outcome is
  therefore taken from the world: it throws, resolves to the very buffer it was given, or
  resolves to a new buffer. The handlers compare the result with \<open>!==\<close> (object identity),
  so a new buffer counts as converted whatever its bytes.
\<close>

datatype conversion = ConvThrows exn | ConvSame | ConvNew buffer

text \<open>
  Object keys and file names are template strings \<open>images/${timestamp}-${name}\<close> and
  \<open>${timestamp}-${name}\<close>; the model keeps the two components.
\<close>

type_synonym stamped_name = "nat \<times> string"
datatype s3key = ImagesKey nat string

text \<open>
  The world of one request: what each external collaborator answers while the request is
  handled. A collaborator that can throw answers with \<open>exn + result\<close> (\<open>Inl\<close> the thrown
  value) or with an optional \<open>exn\<close>.
  \<^item> \<open>laplacian_variance\<close> is the outcome of the try block of \<open>calculateBlurScore\<close>: the
    two sharp calls and the two loops over the pixels, computed in IEEE doubles.
  \<^item> \<open>sha256_hex\<close> is \<open>crypto.createHash("sha256").update(buffer).digest("hex")\<close>.
  \<^item> \<open>new_session_id\<close> and \<open>new_image_id\<close> are the ids the store assigns to the rows
    this request creates.
\<close>

record world =
  sharp_metadata :: "buffer \<Rightarrow> exn + sharp_info"
  laplacian_variance :: "buffer \<Rightarrow> exn + jsnum"
  rekognition_send :: "buffer \<Rightarrow> exn + detect_faces_response"
  sha256_hex :: "buffer \<Rightarrow> string"
  image_findFirst_throws :: "exn option"
  convertToFormat :: "buffer \<Rightarrow> image_target \<Rightarrow> conversion"
  s3_send_throws :: "exn option"
  getSignedUrl :: "s3key \<Rightarrow> exn + string"
  redis_set_throws :: "exn option"
  base64_decode :: "string \<Rightarrow> buffer"
  date_now :: nat
  new_session_id :: string
  new_image_id :: string


section \<open>The validation pipeline (src/services/imageProcessingService.ts)\<close>

text \<open>
  \<open>calculateBlurScore\<close>: the whole body is inside \<open>try\<close>; the handler logs and returns 0.
  The function itself therefore never throws; its result type still has the \<open>Inl\<close> case
  because the caller wraps the call in a try block of its own.
\<close>

definition calculateBlurScore :: "world \<Rightarrow> buffer \<Rightarrow> exn + jsnum" where
  "calculateBlurScore w buffer =
     (case laplacian_variance w buffer of
        Inr score \<Rightarrow> Inr score
      | Inl error \<Rightarrow> Inr (Num 0))"

text \<open>
  \<open>detectFaces\<close>: sends the command, takes \<open>FaceDetails || []\<close>, and folds the maximum of
  \<open>(Width || 0) * (Height || 0)\<close> over the faces that have a bounding box, starting from 0.
  Its handler logs and returns \<open>{ faceCount: 0, faceSize: 0 }\<close>.
\<close>

record face_data =
  fd_faceCount :: nat
  fd_faceSize :: real

definition maxFaceSize_step :: "face_detail \<Rightarrow> real \<Rightarrow> real" where
  "maxFaceSize_step face maxFaceSize =
     (case face of
        None \<Rightarrow> maxFaceSize
      | Some (bw, bh) \<Rightarrow> max maxFaceSize (or_zero bw * or_zero bh))"

definition detectFaces :: "world \<Rightarrow> buffer \<Rightarrow> exn + face_data" where
  "detectFaces w buffer =
     (case rekognition_send w buffer of
        Inr response \<Rightarrow>
          (let faces = (case response of None \<Rightarrow> [] | Some fs \<Rightarrow> fs)
           in Inr \<lparr>fd_faceCount = length faces, fd_faceSize = fold maxFaceSize_step faces 0\<rparr>)
      | Inl error \<Rightarrow> Inr \<lparr>fd_faceCount = 0, fd_faceSize = 0\<rparr>)"

definition generateImageHash :: "world \<Rightarrow> buffer \<Rightarrow> string" where
  "generateImageHash w buffer = sha256_hex w buffer"

definition allowedFormats :: "string list" where
  "allowedFormats = [''jpeg'', ''jpg'', ''png'', ''heic'']"

definition initial_metadata :: image_metadata where
  "initial_metadata =
     \<lparr>md_width = 0, md_height = 0, md_size = 0, md_format = ''unknown'',
      md_blurScore = None, md_faceCount = None, md_faceSize = None, md_hash = None\<rparr>"

text \<open>Steps 1 to 3 of \<open>validateImage\<close>: the reasons accumulated before the HEIC exit.\<close>

definition basic_errors :: "image_config \<Rightarrow> image_metadata \<Rightarrow> reason list" where
  "basic_errors cfg md =
     (if md_width md < minWidth cfg \<or> md_height md < minHeight cfg
      then [ImageTooSmall (md_width md) (md_height md)] else []) @
     (if md_width md > maxWidth cfg \<or> md_height md > maxHeight cfg
      then [ImageTooLarge (md_width md) (md_height md)] else []) @
     (if toLowerCase (md_format md) \<notin> set allowedFormats
      then [InvalidFormat (md_format md)] else [])"

text \<open>Step 5: the blur check, with the caller's own try/catch around it.\<close>

definition blur_step ::
  "world \<Rightarrow> buffer \<Rightarrow> image_metadata \<times> reason list \<Rightarrow> image_metadata \<times> reason list" where
  "blur_step w buffer acc =
     (case acc of (md, errs) \<Rightarrow>
        (case calculateBlurScore w buffer of
           Inr blurScore \<Rightarrow>
             (md\<lparr>md_blurScore := Some blurScore\<rparr>,
              if js_less blurScore 150 then errs @ [Blurry blurScore] else errs)
         | Inl blurError \<Rightarrow> (md\<lparr>md_blurScore := Some (Num 150)\<rparr>, errs)))"

text \<open>Step 6: the face rules, with the caller's own try/catch around them.\<close>

definition face_errors :: "face_data \<Rightarrow> reason list" where
  "face_errors faceData =
     (if fd_faceCount faceData = 0 then [NoFaceDetected]
      else if fd_faceCount faceData > 1 then [MultipleFaces (fd_faceCount faceData)]
      else if fd_faceSize faceData < 15 / 100 then [FaceTooSmall (fd_faceSize faceData)]
      else if fd_faceSize faceData > 8 / 10 then [FaceTooLarge (fd_faceSize faceData)]
      else [])"

definition face_step ::
  "world \<Rightarrow> buffer \<Rightarrow> image_metadata \<times> reason list \<Rightarrow> image_metadata \<times> reason list" where
  "face_step w buffer acc =
     (case acc of (md, errs) \<Rightarrow>
        (case detectFaces w buffer of
           Inr faceData \<Rightarrow>
             (md\<lparr>md_faceCount := Some (fd_faceCount faceData),
                 md_faceSize := Some (fd_faceSize faceData)\<rparr>,
              errs @ face_errors faceData)
         | Inl faceError \<Rightarrow>
             (md\<lparr>md_faceCount := Some 0, md_faceSize := Some 0\<rparr>,
              errs @ [FaceServiceUnavailable])))"

text \<open>\<open>imageInfo.format || "unknown"\<close>, and the test that guards the HEIC exit.\<close>

definition format_or_unknown :: "string option \<Rightarrow> string" where
  "format_or_unknown f = (case f of None \<Rightarrow> ''unknown'' | Some s \<Rightarrow> if s = [] then ''unknown'' else s)"

definition is_heic_format :: "string \<Rightarrow> bool" where
  "is_heic_format f \<longleftrightarrow> toLowerCase f = ''heic'' \<or> toLowerCase f = ''heif''"

text \<open>
  \<open>validateImage\<close>. A throw of \<open>sharp(buffer).metadata()\<close> is the only way into the outer
  handler, which returns the initial metadata. A buffer whose format is heic or heif
  returns before steps 4 to 7, with the four basic metadata fields only.
\<close>

definition validateImage :: "world \<Rightarrow> image_config \<Rightarrow> buffer \<Rightarrow> validation_result" where
  "validateImage w cfg buffer =
     (case sharp_metadata w buffer of
        Inl error \<Rightarrow>
          \<lparr>isValid = False, errors = [ImageProcessingError error], metadata = initial_metadata\<rparr>
      | Inr imageInfo \<Rightarrow>
          (let md = \<lparr>md_width = or_zero (info_width imageInfo),
                     md_height = or_zero (info_height imageInfo),
                     md_size = length buffer,
                     md_format = format_or_unknown (info_format imageInfo),
                     md_blurScore = None, md_faceCount = None, md_faceSize = None,
                     md_hash = None\<rparr>;
               errs3 = basic_errors cfg md
           in if is_heic_format (md_format md)
              then \<lparr>isValid = (errs3 = []), errors = errs3, metadata = md\<rparr>
              else
                (let errs4 = (if md_size md > maxFileSize cfg
                              then errs3 @ [FileTooLarge (md_size md)] else errs3);
                     (md6, errs6) = face_step w buffer (blur_step w buffer (md, errs4));
                     md7 = md6\<lparr>md_hash := Some (generateImageHash w buffer)\<rparr>
                 in \<lparr>isValid = (errs6 = []), errors = errs6, metadata = md7\<rparr>)))"

text \<open>\<open>getImageMetadata\<close>: rethrows a failure of sharp as a new Error.\<close>

definition getImageMetadata :: "world \<Rightarrow> buffer \<Rightarrow> exn + (nat \<times> nat \<times> string)" where
  "getImageMetadata w buffer =
     (case sharp_metadata w buffer of
        Inl error \<Rightarrow> Inl (Error ''Failed to get image metadata'')
      | Inr m \<Rightarrow>
          Inr (or_zero (info_width m), or_zero (info_height m),
               format_or_unknown (info_format m)))"


section \<open>Stored state\<close>

text \<open>
  The metadata store (Prisma), the in-memory \<open>chunkStorage\<close> map of the chunked-upload
  controller, the blob store and the Redis cache. The store's operations on rows are
  modelled as operations on these tables. A failure of the store is modelled where the
  source handles it on its own, in the lookup of \<open>checkForDuplicates\<close>; the other row
  operations are taken to succeed.

  Modelled from the spec: the column defaults of a new upload-session row. The Prisma
  schema is not under src/; by section 3 of the spec a session starts IN_PROGRESS with
  no chunk received and no storage key.
\<close>

datatype session_status = IN_PROGRESS | COMPLETED | FAILED | EXPIRED

datatype image_status = PENDING | PROCESSING | VALIDATED | REJECTED | ERROR

record upload_session =
  us_filename :: string
  us_totalChunks :: int
  uploadedChunks :: int
  us_status :: session_status
  us_s3Key :: "s3key option"
  expiresAt :: nat

record image_row =
  img_id :: string
  img_filename :: stamped_name
  img_originalName :: string
  img_mimeType :: string
  img_size :: nat
  img_width :: nat
  img_height :: nat
  img_s3Key :: s3key
  img_status :: image_status
  img_hash :: "string option"
  img_blurScore :: "jsnum option"
  img_faceCount :: "nat option"
  img_faceSize :: "real option"
  img_validationResults :: "bool \<times> reason list"

record server_state =
  uploadSession_table :: "string \<rightharpoonup> upload_session"
  chunkStorage :: "string \<rightharpoonup> buffer js_array"
  image_table :: "image_row list"
  s3_bucket :: "s3key \<rightharpoonup> buffer \<times> string"
  redis_cache :: "string \<rightharpoonup> validation_result"

text \<open>\<open>prisma.uploadSession.update({ where: { id }, data })\<close>.\<close>

definition uploadSession_update ::
  "string \<Rightarrow> (upload_session \<Rightarrow> upload_session) \<Rightarrow> server_state \<Rightarrow> server_state" where
  "uploadSession_update sid change st =
     st\<lparr>uploadSession_table :=
          (uploadSession_table st)(sid := map_option change (uploadSession_table st sid))\<rparr>"

text \<open>\<open>prisma.image.findFirst({ where: { hash } })\<close>, which may throw.\<close>

definition image_findFirst :: "world \<Rightarrow> server_state \<Rightarrow> string \<Rightarrow> exn + image_row option" where
  "image_findFirst w st h =
     (case image_findFirst_throws w of
        Some e \<Rightarrow> Inl e
      | None \<Rightarrow> Inr (find (\<lambda>row. img_hash row = Some h) (image_table st)))"

text \<open>\<open>checkForDuplicates\<close>: \<open>return !!existingImage\<close>, and \<open>return false\<close> in the handler.\<close>

definition checkForDuplicates :: "world \<Rightarrow> server_state \<Rightarrow> string \<Rightarrow> bool" where
  "checkForDuplicates w st h =
     (case image_findFirst w st h of
        Inr existingImage \<Rightarrow> existingImage \<noteq> None
      | Inl error \<Rightarrow> False)"

text \<open>The S3 service: both functions rethrow a failure as a new Error.\<close>

definition s3_uploadFile ::
  "world \<Rightarrow> s3key \<Rightarrow> buffer \<Rightarrow> string \<Rightarrow> server_state \<Rightarrow> exn + server_state" where
  "s3_uploadFile w key body contentType st =
     (case s3_send_throws w of
        Some e \<Rightarrow> Inl (Error ''Failed to upload file to S3'')
      | None \<Rightarrow> Inr (st\<lparr>s3_bucket := (s3_bucket st)(key \<mapsto> (body, contentType))\<rparr>))"

definition getSignedDownloadUrl :: "world \<Rightarrow> s3key \<Rightarrow> exn + string" where
  "getSignedDownloadUrl w key =
     (case getSignedUrl w key of
        Inl e \<Rightarrow> Inl (Error ''Failed to generate signed URL'')
      | Inr signedUrl \<Rightarrow> Inr signedUrl)"

text \<open>
  The HTTP responses of the two upload routes, one constructor per \<open>res.json\<close>. The
  in-progress response carries \<open>sessionId\<close>, \<open>uploaded\<close> and \<open>total\<close>; its \<open>percentage\<close> is
  computed from the other two in floating point and is left out.
\<close>

datatype response =
    Validation_failed "string list"
  | No_file_provided
  | Progress string int int
  | Completed image_row string
  | Created image_row string
  | Image_validation_failed "reason list"
  | Duplicate_image_detected
  | Failed_to_process_image exn
  | Chunked_upload_failed exn
  | Upload_failed exn

text \<open>
  \<open>if (validationResult.metadata?.hash)\<close> followed by the duplicate check: an absent or
  empty hash skips the check.
\<close>

definition duplicate_found :: "world \<Rightarrow> server_state \<Rightarrow> validation_result \<Rightarrow> bool" where
  "duplicate_found w st validationResult =
     (case md_hash (metadata validationResult) of
        None \<Rightarrow> False
      | Some h \<Rightarrow> h \<noteq> [] \<and> checkForDuplicates w st h)"

definition is_heic_upload :: "string \<Rightarrow> string \<Rightarrow> bool" where
  "is_heic_upload mime name \<longleftrightarrow> mime = ''image/heic'' \<or> endsWith (toLowerCase name) ''.heic''"

definition new_image_row ::
  "world \<Rightarrow> string \<Rightarrow> string \<Rightarrow> buffer \<Rightarrow> nat \<Rightarrow> nat \<Rightarrow> validation_result \<Rightarrow> image_row" where
  "new_image_row w name finalMimeType processedBuffer width height validationResult =
     \<lparr>img_id = new_image_id w,
      img_filename = (date_now w, name),
      img_originalName = name,
      img_mimeType = finalMimeType,
      img_size = length processedBuffer,
      img_width = width,
      img_height = height,
      img_s3Key = ImagesKey (date_now w) name,
      img_status = VALIDATED,
      img_hash = md_hash (metadata validationResult),
      img_blurScore = md_blurScore (metadata validationResult),
      img_faceCount = md_faceCount (metadata validationResult),
      img_faceSize = md_faceSize (metadata validationResult),
      img_validationResults = (isValid validationResult, errors validationResult)\<rparr>"


section \<open>The chunked upload (ChunkedUploadController.uploadChunk)\<close>

record chunk_upload_request =
  sessionId :: "string option"
  filename :: string
  mimeType :: string
  totalChunks :: int
  chunkIndex :: int
  chunkData :: string

text \<open>
  \<open>validateChunkUpload\<close> (middleware/security.ts): the names of the body fields that fail
  their check. \<open>sessionId\<close> is optional; \<open>chunkIndex\<close> is only required to be a
  non-negative integer. \<open>isInt\<close> tests the printed number: a number from \<open>10^21\<close> on
  prints with an exponent and is not an integer for it.
\<close>

definition validateChunkUpload :: "chunk_upload_request \<Rightarrow> string list" where
  "validateChunkUpload req =
     (if (case sessionId req of None \<Rightarrow> True | Some s \<Rightarrow> 1 \<le> length s \<and> length s \<le> 255)
      then [] else [''sessionId'']) @
     (if 1 \<le> length (filename req) \<and> length (filename req) \<le> 255
      then [] else [''filename'']) @
     (if toLowerCase (mimeType req) \<in> set [''image/jpeg'', ''image/jpg'', ''image/png'', ''image/heic'']
      then [] else [''mimeType'']) @
     (if 1 \<le> totalChunks req \<and> totalChunks req \<le> 1000
      then [] else [''totalChunks'']) @
     (if 0 \<le> chunkIndex req \<and> chunkIndex req < 10 ^ 21
      then [] else [''chunkIndex'']) @
     (if 1 \<le> length (chunkData req)
      then [] else [''chunkData''])"

text \<open>
  "Create or get session": a supplied, non-empty \<open>sessionId\<close> is looked up; when nothing
  is found (or no id was supplied) a new row is created from the request.
\<close>

definition find_session :: "chunk_upload_request \<Rightarrow> server_state \<Rightarrow> string option" where
  "find_session req st =
     (case sessionId req of
        None \<Rightarrow> None
      | Some sid \<Rightarrow> if sid = [] then None
                    else (case uploadSession_table st sid of None \<Rightarrow> None | Some row \<Rightarrow> Some sid))"

definition create_session :: "world \<Rightarrow> chunk_upload_request \<Rightarrow> server_state \<Rightarrow> server_state" where
  "create_session w req st =
     st\<lparr>uploadSession_table := (uploadSession_table st)(new_session_id w \<mapsto>
          \<lparr>us_filename = filename req,
           us_totalChunks = totalChunks req,
           uploadedChunks = 0,
           us_status = IN_PROGRESS,
           us_s3Key = None,
           expiresAt = date_now w + 24 * 60 * 60 * 1000\<rparr>)\<rparr>"

definition get_or_create_session ::
  "world \<Rightarrow> chunk_upload_request \<Rightarrow> server_state \<Rightarrow> string \<times> server_state" where
  "get_or_create_session w req st =
     (case find_session req st of
        Some sid \<Rightarrow> (sid, st)
      | None \<Rightarrow> (new_session_id w, create_session w req st))"

text \<open>
  "Decode and store chunk": the array of the session is created with \<open>totalChunks\<close> of the
  request when the map has none, and slot \<open>chunkIndex\<close> is assigned in place.
\<close>

definition store_chunk ::
  "world \<Rightarrow> chunk_upload_request \<Rightarrow> string \<Rightarrow> server_state \<Rightarrow> exn + (buffer js_array \<times> server_state)" where
  "store_chunk w req sid st =
     (let chunkBuffer = base64_decode w (chunkData req)
      in case (case chunkStorage st sid of
                 Some existing \<Rightarrow> Inr existing
               | None \<Rightarrow> new_Array (totalChunks req)) of
           Inl e \<Rightarrow> Inl e
         | Inr arr \<Rightarrow>
             (let chunks = array_set arr (chunkIndex req) chunkBuffer
              in Inr (chunks, st\<lparr>chunkStorage := (chunkStorage st)(sid \<mapsto> chunks)\<rparr>)))"

text \<open>\<open>chunks.every((chunk) => chunk !== undefined)\<close>.\<close>

definition allChunksReceived :: "buffer js_array \<Rightarrow> bool" where
  "allChunksReceived chunks = js_every (\<lambda>chunk. chunk \<noteq> None) chunks"

text \<open>Status FAILED and \<open>chunkStorage.delete\<close>: the clean-up of the three failure exits.\<close>

definition mark_failed :: "string \<Rightarrow> server_state \<Rightarrow> server_state" where
  "mark_failed sid st =
     (let st1 = uploadSession_update sid (\<lambda>row. row\<lparr>us_status := FAILED\<rparr>) st
      in st1\<lparr>chunkStorage := (chunkStorage st1)(sid := None)\<rparr>)"

text \<open>The HEIC conversion of the chunked path: target jpeg, not wrapped in a try block.\<close>

definition convert_chunks ::
  "world \<Rightarrow> chunk_upload_request \<Rightarrow> buffer \<Rightarrow> exn + (buffer \<times> string)" where
  "convert_chunks w req completeBuffer =
     (if is_heic_upload (mimeType req) (filename req) then
        (case convertToFormat w completeBuffer JPEG of
           ConvThrows e \<Rightarrow> Inl e
         | ConvSame \<Rightarrow> Inr (completeBuffer, mimeType req)
         | ConvNew converted \<Rightarrow> Inr (converted, ''image/jpeg''))
      else Inr (completeBuffer, mimeType req))"

text \<open>
  From the S3 upload to the response of a completed upload. The state reached so far is
  returned with a thrown value, since the writes before a throw stay.
\<close>

definition commit_chunks ::
  "world \<Rightarrow> chunk_upload_request \<Rightarrow> string \<Rightarrow> buffer \<Rightarrow> string \<Rightarrow> validation_result \<Rightarrow>
   server_state \<Rightarrow> (exn + response) \<times> server_state" where
  "commit_chunks w req sid processedBuffer finalMimeType validationResult st =
     (let s3Key = ImagesKey (date_now w) (filename req)
      in case s3_uploadFile w s3Key processedBuffer finalMimeType st of
           Inl e \<Rightarrow> (Inl e, st)
         | Inr st1 \<Rightarrow>
             (case getImageMetadata w processedBuffer of
                Inl e \<Rightarrow> (Inl e, st1)
              | Inr (width, height, fmt) \<Rightarrow>
                  (let image = new_image_row w (filename req) finalMimeType processedBuffer
                                 width height validationResult;
                       st2 = st1\<lparr>image_table := image_table st1 @ [image]\<rparr>;
                       st3 = uploadSession_update sid
                               (\<lambda>row. row\<lparr>us_status := COMPLETED, us_s3Key := Some s3Key\<rparr>) st2;
                       st4 = st3\<lparr>chunkStorage := (chunkStorage st3)(sid := None)\<rparr>
                   in case getSignedDownloadUrl w s3Key of
                        Inl e \<Rightarrow> (Inl e, st4)
                      | Inr downloadUrl \<Rightarrow> (Inr (Completed image downloadUrl), st4))))"

text \<open>The body of the inner try block: everything after "all chunks received".\<close>

definition process_chunks ::
  "world \<Rightarrow> image_config \<Rightarrow> chunk_upload_request \<Rightarrow> string \<Rightarrow> buffer js_array \<Rightarrow>
   server_state \<Rightarrow> (exn + response) \<times> server_state" where
  "process_chunks w cfg req sid chunks st =
     (case Buffer_concat chunks of
        Inl e \<Rightarrow> (Inl e, st)
      | Inr completeBuffer \<Rightarrow>
          (case convert_chunks w req completeBuffer of
             Inl e \<Rightarrow> (Inl e, st)
           | Inr (processedBuffer, finalMimeType) \<Rightarrow>
               (let validationResult = validateImage w cfg processedBuffer
                in if \<not> isValid validationResult
                   then (Inr (Image_validation_failed (errors validationResult)), mark_failed sid st)
                   else if duplicate_found w st validationResult
                   then (Inr Duplicate_image_detected, mark_failed sid st)
                   else commit_chunks w req sid processedBuffer finalMimeType validationResult st)))"

text \<open>
  \<open>uploadChunk\<close>. The outer handler answers 500 "Chunked upload failed"; the inner one
  marks the session FAILED, drops its chunks and answers 500 "Failed to process image".
  The progress is \<open>chunkIndex + 1\<close>, an addition of doubles.
\<close>

definition uploadChunk ::
  "world \<Rightarrow> image_config \<Rightarrow> chunk_upload_request \<Rightarrow> server_state \<Rightarrow> response \<times> server_state" where
  "uploadChunk w cfg req st =
     (case get_or_create_session w req st of (sid, st1) \<Rightarrow>
        (case store_chunk w req sid st1 of
           Inl e \<Rightarrow> (Chunked_upload_failed e, st1)
         | Inr (chunks, st2) \<Rightarrow>
             (let st3 = uploadSession_update sid
                          (\<lambda>row. row\<lparr>uploadedChunks := js_add (chunkIndex req) 1\<rparr>) st2
              in if allChunksReceived chunks then
                   (case process_chunks w cfg req sid chunks st3 of
                      (Inr resp, st4) \<Rightarrow> (resp, st4)
                    | (Inl error, st4) \<Rightarrow> (Failed_to_process_image error, mark_failed sid st4))
                 else
                   (Progress sid (js_add (chunkIndex req) 1) (totalChunks req), st3))))"

text \<open>The route: \<open>validateChunkUpload\<close>, then the controller.\<close>

definition chunked_upload_route ::
  "world \<Rightarrow> image_config \<Rightarrow> chunk_upload_request \<Rightarrow> server_state \<Rightarrow> response \<times> server_state" where
  "chunked_upload_route w cfg req st =
     (if validateChunkUpload req = [] then uploadChunk w cfg req st
      else (Validation_failed (validateChunkUpload req), st))"


section \<open>The single-shot upload (ImageController.uploadImage)\<close>

record uploaded_file =
  file_buffer :: buffer
  mimetype :: string
  originalname :: string

record upload_request =
  req_file :: "uploaded_file option"
  query_to :: "string option"

text \<open>The target format of the single-shot conversion, \<open>req.query.to === "png" ? "png" : "jpeg"\<close>.\<close>

definition upload_target :: "upload_request \<Rightarrow> image_target" where
  "upload_target req = (if query_to req = Some ''png'' then PNG else JPEG)"

text \<open>
  "Convert HEIC to JPEG/PNG if needed": the conversion is wrapped in a try block; the MIME
  type changes only when the result is not the buffer that was passed in.
\<close>

definition convert_upload :: "world \<Rightarrow> upload_request \<Rightarrow> uploaded_file \<Rightarrow> buffer \<times> string" where
  "convert_upload w req file =
     (if is_heic_upload (mimetype file) (originalname file) then
        (let target = upload_target req
         in case convertToFormat w (file_buffer file) target of
              ConvNew converted \<Rightarrow>
                (converted, if target = PNG then ''image/png'' else ''image/jpeg'')
            | ConvSame \<Rightarrow> (file_buffer file, mimetype file)
            | ConvThrows error \<Rightarrow> (file_buffer file, mimetype file))
      else (file_buffer file, mimetype file))"

text \<open>"For HEIC files, do basic validation only": the literal result of the source.\<close>

definition heic_validation_result :: "buffer \<Rightarrow> validation_result" where
  "heic_validation_result processedBuffer =
     \<lparr>isValid = True, errors = [],
      metadata = \<lparr>md_width = 1920, md_height = 1080, md_size = length processedBuffer,
                  md_format = ''heic'', md_blurScore = None, md_faceCount = None,
                  md_faceSize = None, md_hash = None\<rparr>\<rparr>"

definition upload_validation ::
  "world \<Rightarrow> image_config \<Rightarrow> uploaded_file \<Rightarrow> buffer \<Rightarrow> string \<Rightarrow> validation_result" where
  "upload_validation w cfg file processedBuffer finalMimeType =
     (if is_heic_upload finalMimeType (originalname file)
      then heic_validation_result processedBuffer
      else validateImage w cfg processedBuffer)"

text \<open>
  "Cache validation metadata in Redis": key \<open>image:validation:${hash ?? originalname}\<close>; a
  failure is logged and ignored.
\<close>

definition cache_validation ::
  "world \<Rightarrow> uploaded_file \<Rightarrow> validation_result \<Rightarrow> server_state \<Rightarrow> server_state" where
  "cache_validation w file validationResult st =
     (case redis_set_throws w of
        Some e \<Rightarrow> st
      | None \<Rightarrow>
          st\<lparr>redis_cache := (redis_cache st)
               (''image:validation:'' @
                  (case md_hash (metadata validationResult) of
                     Some h \<Rightarrow> h
                   | None \<Rightarrow> originalname file) \<mapsto> validationResult)\<rparr>)"

text \<open>
  From the S3 upload to the 201 response. HEIC files get the default dimensions
  1920 x 1080 instead of a call of \<open>getImageMetadata\<close>. Every throw ends in the handler's
  500 "Upload failed", with the writes made so far.
\<close>

definition commit_upload ::
  "world \<Rightarrow> uploaded_file \<Rightarrow> buffer \<Rightarrow> string \<Rightarrow> validation_result \<Rightarrow> server_state \<Rightarrow>
   response \<times> server_state" where
  "commit_upload w file processedBuffer finalMimeType validationResult st =
     (let s3Key = ImagesKey (date_now w) (originalname file)
      in case s3_uploadFile w s3Key processedBuffer finalMimeType st of
           Inl e \<Rightarrow> (Upload_failed e, st)
         | Inr st1 \<Rightarrow>
             (case (if is_heic_upload finalMimeType (originalname file)
                    then Inr (1920, 1080, ''heic'')
                    else getImageMetadata w processedBuffer) of
                Inl e \<Rightarrow> (Upload_failed e, st1)
              | Inr (width, height, fmt) \<Rightarrow>
                  (let image = new_image_row w (originalname file) finalMimeType processedBuffer
                                 width height validationResult;
                       st2 = st1\<lparr>image_table := image_table st1 @ [image]\<rparr>
                   in case getSignedDownloadUrl w s3Key of
                        Inl e \<Rightarrow> (Upload_failed e, st2)
                      | Inr downloadUrl \<Rightarrow> (Created image downloadUrl, st2))))"

definition uploadImage ::
  "world \<Rightarrow> image_config \<Rightarrow> upload_request \<Rightarrow> server_state \<Rightarrow> response \<times> server_state" where
  "uploadImage w cfg req st =
     (case req_file req of
        None \<Rightarrow> (No_file_provided, st)
      | Some file \<Rightarrow>
          (case convert_upload w req file of (processedBuffer, finalMimeType) \<Rightarrow>
             (let validationResult = upload_validation w cfg file processedBuffer finalMimeType;
                  st1 = cache_validation w file validationResult st
              in if \<not> isValid validationResult
                 then (Image_validation_failed (errors validationResult), st1)
                 else if duplicate_found w st1 validationResult
                 then (Duplicate_image_detected, st1)
                 else commit_upload w file processedBuffer finalMimeType validationResult st1)))"


section \<open>Job options (src/services/queueService.ts)\<close>

text \<open>
  \<open>Number.parseInt(s)\<close> without a radix: leading white space is skipped, a sign is read,
  a prefix \<open>0x\<close> selects radix 16, and the longest prefix of digits is the value; without
  a digit the result is \<open>NaN\<close>, here \<open>None\<close>.
\<close>

definition is_white_space :: "char \<Rightarrow> bool" where
  "is_white_space c \<longleftrightarrow> c \<in> set [CHR '' '', CHR 0x09, CHR 0x0A, CHR 0x0B, CHR 0x0C, CHR 0x0D]"

definition digit_value :: "char \<Rightarrow> nat option" where
  "digit_value c =
     map_of (zip ''0123456789abcdefABCDEF''
                 [0, 1, 2, 3, 4, 5, 6, 7, 8, 9, 10, 11, 12, 13, 14, 15, 10, 11, 12, 13, 14, 15]) c"

definition is_digit_of :: "nat \<Rightarrow> char \<Rightarrow> bool" where
  "is_digit_of radix c = (case digit_value c of None \<Rightarrow> False | Some d \<Rightarrow> d < radix)"

definition digits_value :: "nat \<Rightarrow> string \<Rightarrow> nat" where
  "digits_value radix ds = foldl (\<lambda>acc c. acc * radix + or_zero (digit_value c)) 0 ds"

definition parseInt :: "string \<Rightarrow> int option" where
  "parseInt s =
     (let s1 = dropWhile is_white_space s;
          negative = (take 1 s1 = ''-'');
          s2 = (if take 1 s1 = ''-'' \<or> take 1 s1 = ''+'' then drop 1 s1 else s1);
          hex = (take 2 s2 = ''0x'' \<or> take 2 s2 = ''0X'');
          radix = (if hex then 16 else 10);
          ds = takeWhile (is_digit_of radix) (if hex then drop 2 s2 else s2)
      in if ds = [] then None
         else Some (if negative then - int (digits_value radix ds)
                    else int (digits_value radix ds)))"

text \<open>The two variables of \<open>process.env\<close> that \<open>defaultJobOptions\<close> reads.\<close>

record process_env =
  QUEUE_MAX_ATTEMPTS :: "string option"
  QUEUE_BACKOFF_MS :: "string option"

record jobs_options =
  attempts :: "int option"
  backoff_type :: string
  backoff_delay :: "int option"
  removeOnComplete :: nat
  removeOnFail :: nat

definition defaultJobOptions :: "process_env \<Rightarrow> jobs_options" where
  "defaultJobOptions env =
     (let attempts = parseInt (case QUEUE_MAX_ATTEMPTS env of None \<Rightarrow> ''3'' | Some v \<Rightarrow> v);
          backoffMs = parseInt (case QUEUE_BACKOFF_MS env of None \<Rightarrow> ''1000'' | Some v \<Rightarrow> v)
      in \<lparr>attempts = attempts, backoff_type = ''exponential'', backoff_delay = backoffMs,
          removeOnComplete = 1000, removeOnFail = 1000\<rparr>)"

text \<open>
  Modelled from the spec: the retry engine of the job queue. The worker loop belongs to
  the queue library and is not under src/. By sections 3 and 4.4 of the spec a job has an
  attempt counter and a ceiling; a worker executes the handler and, when it fails, either
  reschedules the job (if attempts remain) after the backoff delay
  \<open>base * 2^(attempt - 1)\<close>, or marks it terminal-failed.
\<close>

datatype job_state = WAITING | JOB_COMPLETED | FAILED_RETRY_PENDING int | FAILED_TERMINAL

record job =
  attemptsMade :: nat
  state :: job_state

definition backoff_delay_ms :: "jobs_options \<Rightarrow> nat \<Rightarrow> int" where
  "backoff_delay_ms opts attempt = or_zero (backoff_delay opts) * 2 ^ (attempt - 1)"

definition attempt_job :: "jobs_options \<Rightarrow> bool \<Rightarrow> job \<Rightarrow> job" where
  "attempt_job opts succeeded j =
     (let n = attemptsMade j + 1
      in if succeeded then \<lparr>attemptsMade = n, state = JOB_COMPLETED\<rparr>
         else if int n < or_zero (attempts opts)
         then \<lparr>attemptsMade = n, state = FAILED_RETRY_PENDING (backoff_delay_ms opts n)\<rparr>
         else \<lparr>attemptsMade = n, state = FAILED_TERMINAL\<rparr>)"

definition job_final :: "job \<Rightarrow> bool" where
  "job_final j \<longleftrightarrow> state j = JOB_COMPLETED \<or> state j = FAILED_TERMINAL"

fun run_job :: "jobs_options \<Rightarrow> bool list \<Rightarrow> job \<Rightarrow> job" where
  "run_job opts [] j = j"
| "run_job opts (succeeded # rest) j =
     (if job_final j then j else run_job opts rest (attempt_job opts succeeded j))"

definition enqueued_job :: job where
  "enqueued_job = \<lparr>attemptsMade = 0, state = WAITING\<rparr>"


section \<open>Observations and example inputs\<close>

text \<open>
  The session a chunk request works on, and what the store records for a session after
  the request.
\<close>

definition session_of :: "world \<Rightarrow> chunk_upload_request \<Rightarrow> server_state \<Rightarrow> string" where
  "session_of w req st = fst (get_or_create_session w req st)"

definition recorded_progress :: "server_state \<Rightarrow> string \<Rightarrow> int option" where
  "recorded_progress st sid = map_option uploadedChunks (uploadSession_table st sid)"

definition recorded_status :: "server_state \<Rightarrow> string \<Rightarrow> session_status option" where
  "recorded_status st sid = map_option us_status (uploadSession_table st sid)"

definition recorded_origin :: "server_state \<Rightarrow> string \<Rightarrow> (string \<times> int) option" where
  "recorded_origin st sid =
     map_option (\<lambda>row. (us_filename row, us_totalChunks row)) (uploadSession_table st sid)"

text \<open>
  The default configuration of config/env.ts, and a world in which every collaborator
  answers and the buffer is an 800 x 600 JPEG with one face covering a quarter of it.
  Its base64 decoder knows the one chunk the examples send, \<open>QUJD\<close> for the bytes of
  \<open>ABC\<close>.
\<close>

definition studio_config :: image_config where
  "studio_config =
     \<lparr>minWidth = 300, minHeight = 300, maxWidth = 4000, maxHeight = 4000,
      maxFileSize = 10485760\<rparr>"

definition portrait_info :: sharp_info where
  "portrait_info = \<lparr>info_width = Some 800, info_height = Some 600, info_format = Some ''jpeg''\<rparr>"

definition portrait_world :: world where
  "portrait_world =
     \<lparr>sharp_metadata = (\<lambda>b. Inr portrait_info),
      laplacian_variance = (\<lambda>b. Inr (Num 400)),
      rekognition_send = (\<lambda>b. Inr (Some [Some (Some (1 / 2), Some (1 / 2))])),
      sha256_hex = (\<lambda>b. ''digest''),
      image_findFirst_throws = None,
      convertToFormat = (\<lambda>b t. ConvSame),
      s3_send_throws = None,
      getSignedUrl = (\<lambda>k. Inr ''https://signed''),
      redis_set_throws = None,
      base64_decode = (\<lambda>s. if s = ''QUJD'' then [65, 66, 67] else []),
      date_now = 1700000000000,
      new_session_id = ''session-1'',
      new_image_id = ''image-1''\<rparr>"

definition empty_state :: server_state where
  "empty_state =
     \<lparr>uploadSession_table = Map.empty, chunkStorage = Map.empty, image_table = [],
      s3_bucket = Map.empty, redis_cache = Map.empty\<rparr>"

definition chunk_request :: "string option \<Rightarrow> int \<Rightarrow> int \<Rightarrow> chunk_upload_request" where
  "chunk_request sid n i =
     \<lparr>sessionId = sid, filename = ''face.jpg'', mimeType = ''image/jpeg'',
      totalChunks = n, chunkIndex = i, chunkData = ''QUJD''\<rparr>"




definition file_upload :: "string \<Rightarrow> string \<Rightarrow> upload_request" where
  "file_upload mime name =
     \<lparr>req_file = Some \<lparr>file_buffer = [1, 2, 3], mimetype = mime, originalname = name\<rparr>,
      query_to = None\<rparr>"

definition is_converted :: "conversion \<Rightarrow> bool" where
  "is_converted c = (case c of ConvNew converted \<Rightarrow> True | ConvSame \<Rightarrow> False | ConvThrows e \<Rightarrow> False)"


text \<open>A store whose only session has been completed.\<close>

definition completed_session :: upload_session where
  "completed_session =
     \<lparr>us_filename = ''face.jpg'', us_totalChunks = 1, uploadedChunks = 1,
      us_status = COMPLETED, us_s3Key = Some (ImagesKey 1600000000000 ''face.jpg''),
      expiresAt = 1600086400000\<rparr>"

definition finished_state :: server_state where
  "finished_state = empty_state\<lparr>uploadSession_table := [''session-0'' \<mapsto> completed_session]\<rparr>"


section \<open>Facts about the example inputs\<close>

lemma studio_config_fields:
  "minWidth studio_config = 300" "minHeight studio_config = 300"
  "maxWidth studio_config = 4000" "maxHeight studio_config = 4000"
  "maxFileSize studio_config = 10485760"
  by (simp_all add: studio_config_def)

lemma portrait_world_fields:
  "sharp_metadata portrait_world = (\<lambda>b. Inr portrait_info)"
  "laplacian_variance portrait_world = (\<lambda>b. Inr (Num 400))"
  "rekognition_send portrait_world = (\<lambda>b. Inr (Some [Some (Some (1 / 2), Some (1 / 2))]))"
  "sha256_hex portrait_world = (\<lambda>b. ''digest'')"
  "image_findFirst_throws portrait_world = None"
  "convertToFormat portrait_world = (\<lambda>b t. ConvSame)"
  "s3_send_throws portrait_world = None"
  "getSignedUrl portrait_world = (\<lambda>k. Inr ''https://signed'')"
  "redis_set_throws portrait_world = None"
  "base64_decode portrait_world = (\<lambda>s. if s = ''QUJD'' then [65, 66, 67] else [])"
  "date_now portrait_world = 1700000000000"
  "new_session_id portrait_world = ''session-1''"
  "new_image_id portrait_world = ''image-1''"
  by (simp_all add: portrait_world_def)

lemma portrait_info_fields:
  "info_width portrait_info = Some 800" "info_height portrait_info = Some 600"
  "info_format portrait_info = Some ''jpeg''"
  by (simp_all add: portrait_info_def)

lemma empty_state_fields:
  "uploadSession_table empty_state = Map.empty" "chunkStorage empty_state = Map.empty"
  "image_table empty_state = []" "s3_bucket empty_state = Map.empty"
  "redis_cache empty_state = Map.empty"
  by (simp_all add: empty_state_def)

lemma chunk_request_fields:
  "sessionId (chunk_request sid n i) = sid" "filename (chunk_request sid n i) = ''face.jpg''"
  "mimeType (chunk_request sid n i) = ''image/jpeg''" "totalChunks (chunk_request sid n i) = n"
  "chunkIndex (chunk_request sid n i) = i" "chunkData (chunk_request sid n i) = ''QUJD''"
  by (simp_all add: chunk_request_def)



lemma finished_state_fields:
  "uploadSession_table finished_state = [''session-0'' \<mapsto> completed_session]"
  "chunkStorage finished_state = Map.empty" "image_table finished_state = []"
  "s3_bucket finished_state = Map.empty" "redis_cache finished_state = Map.empty"
  by (simp_all add: finished_state_def empty_state_fields)

lemma file_upload_fields:
  "req_file (file_upload mime name) =
     Some \<lparr>file_buffer = [1, 2, 3], mimetype = mime, originalname = name\<rparr>"
  "query_to (file_upload mime name) = None"
  by (simp_all add: file_upload_def)

lemma chunk_request_with_session:
  "(chunk_request sid n i)\<lparr>sessionId := sid'\<rparr> = chunk_request sid' n i"
  by (simp add: chunk_request_def)

lemma toLowerCase_jpeg: "toLowerCase ''jpeg'' = ''jpeg''"
  by (simp add: toLowerCase_def toLowerCase_char_def)

lemma toLowerCase_heif: "toLowerCase ''heif'' = ''heif''"
  by (simp add: toLowerCase_def toLowerCase_char_def)

lemma jpeg_is_not_heic: "\<not> is_heic_format ''jpeg''"
  by (simp add: is_heic_format_def toLowerCase_jpeg)

lemma heif_is_heic: "is_heic_format ''heif''"
  by (simp add: is_heic_format_def toLowerCase_heif)

lemma session_of_new:
  "session_of w (chunk_request None n i) st = new_session_id w"
  by (simp add: session_of_def get_or_create_session_def find_session_def chunk_request_fields)


section \<open>Sparse arrays\<close>

lemma allChunksReceived_always: "allChunksReceived chunks"
  by (simp add: allChunksReceived_def js_every_def list_all_iff)

lemma Buffer_concat_hole: "None \<in> set chunks \<Longrightarrow> Buffer_concat chunks = Inl TypeError"
  by (induction chunks rule: Buffer_concat.induct) auto

lemma Buffer_concat_full: "Buffer_concat (map Some bs) = Inr (concat bs)"
  by (induction bs) auto

lemma update_keeps_hole:
  assumes "2 \<le> n"
  shows "None \<in> set ((replicate n None)[j := Some v])"
proof -
  define k :: nat where "k = (if j = 0 then 1 else 0)"
  have k: "k < n" "k \<noteq> j" using assms by (auto simp: k_def)
  then have "((replicate n None)[j := Some v]) ! k = None" by simp
  moreover have "k < length ((replicate n None)[j := Some v])" using k by simp
  ultimately show ?thesis by (metis nth_mem)
qed

lemma array_set_keeps_hole:
  assumes "2 \<le> n"
  shows "None \<in> set (array_set (replicate n None) i v)"
  using assms update_keeps_hole [OF assms] by (auto simp: array_set_def)


section \<open>The steps of the chunked upload\<close>

lemma store_chunk_fresh:
  assumes "chunkStorage st sid = None" "0 \<le> totalChunks req" "totalChunks req < 2 ^ 32"
  shows "store_chunk w req sid st =
           Inr (array_set (replicate (nat (totalChunks req)) None) (chunkIndex req)
                  (base64_decode w (chunkData req)),
                st\<lparr>chunkStorage := (chunkStorage st)(sid \<mapsto>
                  array_set (replicate (nat (totalChunks req)) None) (chunkIndex req)
                    (base64_decode w (chunkData req)))\<rparr>)"
  using assms by (simp add: store_chunk_def new_Array_def Let_def)

lemma chunkStorage_get_or_create:
  "chunkStorage (snd (get_or_create_session w req st)) = chunkStorage st"
  by (simp add: get_or_create_session_def create_session_def split: option.splits)

lemma process_chunks_hole:
  "None \<in> set chunks \<Longrightarrow> process_chunks w cfg req sid chunks st = (Inl TypeError, st)"
  by (simp add: process_chunks_def Buffer_concat_hole)

lemma row_after_get_or_create:
  "uploadSession_table (snd (get_or_create_session w req st))
      (fst (get_or_create_session w req st)) \<noteq> None"
  by (auto simp: get_or_create_session_def create_session_def find_session_def
           split: option.splits if_splits)


section \<open>Completion of a chunked upload\<close>

text \<open>
  Claim C1 asks that a session is complete exactly when every index below \<open>totalChunks\<close>
  has been received, and that the chunks are then concatenated in index order. The check
  of the source, \<open>chunks.every((chunk) => chunk !== undefined)\<close>, runs on a sparse
  array and never sees an empty slot, so it holds after every append
  (\<open>allChunksReceived_always\<close>). The theorem below is what the handler does on any
  append to a session of two or more chunks whose array is not yet in \<open>chunkStorage\<close>
  (which is the case for every session after every request): it goes on to
  \<open>Buffer.concat\<close>, which throws on the first empty slot; the session is marked FAILED,
  its chunks are dropped and the answer is 500 "Failed to process image", where the claim
  expects an in-progress answer.
\<close>

theorem C1_append_to_session_of_several_chunks_fails:
  assumes "2 \<le> totalChunks req" and "totalChunks req < 2 ^ 32"
      and "chunkStorage st (session_of w req st) = None"
  shows "fst (uploadChunk w cfg req st) = Failed_to_process_image TypeError \<and>
         recorded_status (snd (uploadChunk w cfg req st)) (session_of w req st) = Some FAILED \<and>
         chunkStorage (snd (uploadChunk w cfg req st)) (session_of w req st) = None"
proof -
  obtain sid st1 where g: "get_or_create_session w req st = (sid, st1)"
    by (cases "get_or_create_session w req st")
  have sid: "session_of w req st = sid" by (simp add: session_of_def g)
  have cs: "chunkStorage st1 sid = None"
    using chunkStorage_get_or_create [of w req st] assms(3) by (simp add: g sid)
  have row: "uploadSession_table st1 sid \<noteq> None"
    using row_after_get_or_create [of w req st] by (simp add: g)
  define chunks where
    "chunks = array_set (replicate (nat (totalChunks req)) None) (chunkIndex req)
                (base64_decode w (chunkData req))"
  have hole: "None \<in> set chunks"
    unfolding chunks_def using assms(1) by (intro array_set_keeps_hole) simp
  have sc: "store_chunk w req sid st1 =
              Inr (chunks, st1\<lparr>chunkStorage := (chunkStorage st1)(sid \<mapsto> chunks)\<rparr>)"
    using store_chunk_fresh [OF cs, of req w] assms(1,2) by (simp add: chunks_def)
  show ?thesis
    using row
    by (auto simp add: uploadChunk_def g sid sc Let_def allChunksReceived_always
          process_chunks_hole [OF hole] mark_failed_def uploadSession_update_def
          recorded_status_def)
qed

theorem C1_witness:
  "fst (uploadChunk portrait_world studio_config (chunk_request None 3 1) empty_state) =
     Failed_to_process_image TypeError \<and>
   recorded_status (snd (uploadChunk portrait_world studio_config (chunk_request None 3 1)
     empty_state)) ''session-1'' = Some FAILED \<and>
   chunkStorage (snd (uploadChunk portrait_world studio_config (chunk_request None 3 1)
     empty_state)) ''session-1'' = None"
  using C1_append_to_session_of_several_chunks_fails
          [of "chunk_request None 3 1" empty_state portrait_world studio_config]
  by (simp add: session_of_new chunk_request_fields empty_state_fields portrait_world_fields)


section \<open>The content hash in the validation result\<close>

text \<open>
  Claim C5, amended. The hash field of the result of \<open>validateImage\<close> is the SHA-256
  digest of the buffer, whatever the verdict, exactly when the buffer decodes and its
  format is neither heic nor heif. The HEIC exit returns before the hash is computed, and
  the result built after a decode error carries the initial metadata: in both cases the
  hash is absent.
\<close>

theorem C5_hash_present_unless_early_exit:
  "md_hash (metadata (validateImage w cfg buffer)) =
     (case sharp_metadata w buffer of
        Inl e \<Rightarrow> None
      | Inr info \<Rightarrow>
          if is_heic_format (format_or_unknown (info_format info)) then None
          else Some (sha256_hex w buffer))"
  by (simp add: validateImage_def Let_def initial_metadata_def generateImageHash_def
           split: prod.splits sum.splits)

theorem C5_witness:
  "md_hash (metadata (validateImage portrait_world studio_config [1, 2, 3])) = Some ''digest''"
  using C5_hash_present_unless_early_exit [of portrait_world studio_config "[1, 2, 3]"]
  by (simp add: portrait_world_fields portrait_info_fields format_or_unknown_def
        jpeg_is_not_heic)

theorem C5_counterexample:
  "md_hash (metadata (validateImage
      (portrait_world\<lparr>sharp_metadata := \<lambda>b. Inr (portrait_info\<lparr>info_format := Some ''heif''\<rparr>)\<rparr>)
      studio_config [1, 2, 3])) = None"
  by (simp add: validateImage_def Let_def format_or_unknown_def heif_is_heic)

section \<open>Facts about the validation pipeline\<close>

lemma calculateBlurScore_never_throws: "calculateBlurScore w buffer \<noteq> Inl e"
  by (simp add: calculateBlurScore_def split: sum.splits)

lemma detectFaces_never_throws: "detectFaces w buffer \<noteq> Inl e"
  by (simp add: detectFaces_def Let_def split: sum.splits)

lemma isValid_iff_no_errors:
  "isValid (validateImage w cfg buffer) \<longleftrightarrow> errors (validateImage w cfg buffer) = []"
  by (simp add: validateImage_def Let_def split: sum.splits prod.splits)

lemma blur_step_errors:
  "snd (blur_step w buffer (md, errs)) =
     errs @ (case laplacian_variance w buffer of
               Inl e \<Rightarrow> [Blurry (Num 0)]
             | Inr score \<Rightarrow> if js_less score 150 then [Blurry score] else [])"
  by (simp add: blur_step_def calculateBlurScore_def split: sum.splits)

lemma blur_step_score:
  "md_blurScore (fst (blur_step w buffer (md, errs))) =
     Some (case laplacian_variance w buffer of Inl e \<Rightarrow> Num 0 | Inr score \<Rightarrow> score)"
  by (simp add: blur_step_def calculateBlurScore_def split: sum.splits)

lemma face_step_errors:
  "snd (face_step w buffer (md, errs)) =
     errs @ (case detectFaces w buffer of Inl e \<Rightarrow> [FaceServiceUnavailable]
             | Inr faceData \<Rightarrow> face_errors faceData)"
  by (simp add: face_step_def split: sum.splits)

lemma face_step_blurScore:
  "md_blurScore (fst (face_step w buffer (md, errs))) = md_blurScore md"
  by (simp add: face_step_def split: sum.splits)

lemma detectFaces_provider_error:
  "rekognition_send w buffer = Inl e \<Longrightarrow>
     detectFaces w buffer = Inr \<lparr>fd_faceCount = 0, fd_faceSize = 0\<rparr>"
  by (simp add: detectFaces_def)

lemma unavailable_not_in_face_errors: "FaceServiceUnavailable \<notin> set (face_errors faceData)"
  by (simp add: face_errors_def)

lemma unavailable_not_in_basic_errors: "FaceServiceUnavailable \<notin> set (basic_errors cfg md)"
  by (simp add: basic_errors_def)

lemma validateImage_errors_decoded:
  assumes "sharp_metadata w buffer = Inr info"
      and "\<not> is_heic_format (format_or_unknown (info_format info))"
  shows "\<exists>errs4. FaceServiceUnavailable \<notin> set errs4 \<and>
           errors (validateImage w cfg buffer) =
             errs4 @
             (case laplacian_variance w buffer of
                Inl e \<Rightarrow> [Blurry (Num 0)]
              | Inr score \<Rightarrow> if js_less score 150 then [Blurry score] else []) @
             (case detectFaces w buffer of Inl e \<Rightarrow> [FaceServiceUnavailable]
              | Inr faceData \<Rightarrow> face_errors faceData)"
proof -
  define md where
    "md = \<lparr>md_width = or_zero (info_width info), md_height = or_zero (info_height info),
           md_size = length buffer, md_format = format_or_unknown (info_format info),
           md_blurScore = None, md_faceCount = None, md_faceSize = None, md_hash = None\<rparr>"
  define errs4 where
    "errs4 = (if md_size md > maxFileSize cfg
              then basic_errors cfg md @ [FileTooLarge (md_size md)] else basic_errors cfg md)"
  have no: "FaceServiceUnavailable \<notin> set errs4"
    by (simp add: errs4_def unavailable_not_in_basic_errors)
  have "errors (validateImage w cfg buffer) =
          snd (face_step w buffer (blur_step w buffer (md, errs4)))"
    using assms
    by (simp add: validateImage_def Let_def md_def errs4_def split: prod.splits)
  also have "\<dots> = snd (face_step w buffer (fst (blur_step w buffer (md, errs4)),
                        snd (blur_step w buffer (md, errs4))))"
    by simp
  finally show ?thesis
    using no by (simp only: face_step_errors blur_step_errors append_assoc) blast
qed

lemma validateImage_blurScore_decoded:
  assumes "sharp_metadata w buffer = Inr info"
      and "\<not> is_heic_format (format_or_unknown (info_format info))"
  shows "md_blurScore (metadata (validateImage w cfg buffer)) =
           Some (case laplacian_variance w buffer of Inl e \<Rightarrow> Num 0 | Inr score \<Rightarrow> score)"
proof -
  define md where
    "md = \<lparr>md_width = or_zero (info_width info), md_height = or_zero (info_height info),
           md_size = length buffer, md_format = format_or_unknown (info_format info),
           md_blurScore = None, md_faceCount = None, md_faceSize = None, md_hash = None\<rparr>"
  define errs4 where
    "errs4 = (if md_size md > maxFileSize cfg
              then basic_errors cfg md @ [FileTooLarge (md_size md)] else basic_errors cfg md)"
  have "md_blurScore (metadata (validateImage w cfg buffer)) =
          md_blurScore (fst (face_step w buffer (blur_step w buffer (md, errs4))))"
    using assms
    by (simp add: validateImage_def Let_def md_def errs4_def split: prod.splits)
  also have "\<dots> = md_blurScore (fst (face_step w buffer (fst (blur_step w buffer (md, errs4)),
                        snd (blur_step w buffer (md, errs4)))))"
    by simp
  finally show ?thesis
    by (simp only: face_step_blurScore blur_step_score)
qed


lemma portrait_basic_errors:
  "basic_errors studio_config
      \<lparr>md_width = 800, md_height = 600, md_size = n, md_format = ''jpeg'',
       md_blurScore = None, md_faceCount = None, md_faceSize = None, md_hash = None\<rparr> = []"
  by (simp add: basic_errors_def studio_config_fields toLowerCase_jpeg allowedFormats_def)

lemma portrait_errors:
  assumes "sharp_metadata w b = Inr portrait_info" and "length b \<le> 10485760"
  shows "errors (validateImage w studio_config b) =
           snd (face_step w b (blur_step w b
             (\<lparr>md_width = 800, md_height = 600, md_size = length b, md_format = ''jpeg'',
               md_blurScore = None, md_faceCount = None, md_faceSize = None, md_hash = None\<rparr>,
              [])))"
  using assms(2)
  by (simp add: validateImage_def assms(1) Let_def portrait_info_fields or_zero_def
        format_or_unknown_def jpeg_is_not_heic portrait_basic_errors studio_config_fields
        split: prod.splits)

lemma validateImage_portrait:
  assumes "sharp_metadata w b = Inr portrait_info"
      and "laplacian_variance w b = Inr (Num 400)"
      and "rekognition_send w b = Inr (Some [Some (Some (1 / 2), Some (1 / 2))])"
      and "length b \<le> 10485760"
  shows "validateImage w studio_config b =
           \<lparr>isValid = True, errors = [],
            metadata = \<lparr>md_width = 800, md_height = 600, md_size = length b,
                        md_format = ''jpeg'', md_blurScore = Some (Num 400),
                        md_faceCount = Some 1, md_faceSize = Some (1 / 4),
                        md_hash = Some (sha256_hex w b)\<rparr>\<rparr>"
proof -
  have basic: "\<And>n. basic_errors studio_config
      \<lparr>md_width = 800, md_height = 600, md_size = n, md_format = ''jpeg'',
       md_blurScore = None, md_faceCount = None, md_faceSize = None, md_hash = None\<rparr> = []"
    by (simp add: basic_errors_def studio_config_fields toLowerCase_jpeg allowedFormats_def)
  have blur: "\<And>md errs. blur_step w b (md, errs) = (md\<lparr>md_blurScore := Some (Num 400)\<rparr>, errs)"
    by (simp add: blur_step_def calculateBlurScore_def assms(2))
  have face: "\<And>md errs. face_step w b (md, errs) =
      (md\<lparr>md_faceCount := Some 1, md_faceSize := Some (1 / 4)\<rparr>, errs)"
    by (simp add: face_step_def detectFaces_def assms(3) face_errors_def maxFaceSize_step_def
          or_zero_def)
  show ?thesis
    using assms(4)
    by (simp add: validateImage_def assms(1) Let_def portrait_info_fields or_zero_def
          format_or_unknown_def jpeg_is_not_heic basic blur face studio_config_fields
          generateImageHash_def)
qed

lemma heic_name_examples:
  "endsWith (toLowerCase ''IMG_1.HEIC'') ''.heic''"
  "\<not> endsWith (toLowerCase ''IMG_1'') ''.heic''"
  "\<not> endsWith (toLowerCase ''face.jpg'') ''.heic''"
  by (simp_all add: endsWith_def toLowerCase_def toLowerCase_char_def)


section \<open>A failing face-detection provider\<close>

text \<open>
  Claim C6 asks that a failure of the face-detection call rejects the buffer with a
  "face detection unavailable" reason. \<open>validateImage\<close> has the handler for it (it pushes
  "Face detection service unavailable", under the comment "Fail validation if face
  detection fails - this is important for security"), but \<open>detectFaces\<close> catches the
  provider's error itself and returns zero faces, so the handler is never entered
  (\<open>detectFaces_never_throws\<close>). The theorem is what happens instead, for every buffer that
  reaches step 6: the buffer is rejected, with the reason "No face detected" and without
  the reason the claim names.
\<close>

theorem C6_provider_error_reported_as_no_face:
  assumes "sharp_metadata w buffer = Inr info"
      and "\<not> is_heic_format (format_or_unknown (info_format info))"
      and "rekognition_send w buffer = Inl e"
  shows "\<not> isValid (validateImage w cfg buffer) \<and>
         NoFaceDetected \<in> set (errors (validateImage w cfg buffer)) \<and>
         FaceServiceUnavailable \<notin> set (errors (validateImage w cfg buffer))"
proof -
  obtain errs4 where e: "FaceServiceUnavailable \<notin> set errs4"
    "errors (validateImage w cfg buffer) =
       errs4 @
       (case laplacian_variance w buffer of
          Inl e \<Rightarrow> [Blurry (Num 0)]
        | Inr score \<Rightarrow> if js_less score 150 then [Blurry score] else []) @
       (case detectFaces w buffer of Inl e \<Rightarrow> [FaceServiceUnavailable]
        | Inr faceData \<Rightarrow> face_errors faceData)"
    using validateImage_errors_decoded [OF assms(1,2)] by blast
  have f: "detectFaces w buffer = Inr \<lparr>fd_faceCount = 0, fd_faceSize = 0\<rparr>"
    using assms(3) by (rule detectFaces_provider_error)
  have errs: "errors (validateImage w cfg buffer) =
       errs4 @
       (case laplacian_variance w buffer of
          Inl e \<Rightarrow> [Blurry (Num 0)]
        | Inr score \<Rightarrow> if js_less score 150 then [Blurry score] else []) @ [NoFaceDetected]"
    by (simp add: e(2) f face_errors_def)
  have "NoFaceDetected \<in> set (errors (validateImage w cfg buffer))"
    by (simp add: errs)
  moreover have "FaceServiceUnavailable \<notin> set (errors (validateImage w cfg buffer))"
    using e(1) by (simp add: errs split: sum.splits)
  moreover have "\<not> isValid (validateImage w cfg buffer)"
    by (simp add: isValid_iff_no_errors errs)
  ultimately show ?thesis by simp
qed

theorem C6_witness:
  "\<not> isValid (validateImage
       (portrait_world\<lparr>rekognition_send := \<lambda>b. Inl (Error ''timeout'')\<rparr>) studio_config [1, 2, 3]) \<and>
   NoFaceDetected \<in> set (errors (validateImage
       (portrait_world\<lparr>rekognition_send := \<lambda>b. Inl (Error ''timeout'')\<rparr>) studio_config [1, 2, 3])) \<and>
   FaceServiceUnavailable \<notin> set (errors (validateImage
       (portrait_world\<lparr>rekognition_send := \<lambda>b. Inl (Error ''timeout'')\<rparr>) studio_config [1, 2, 3])) \<and>
   errors (validateImage
       (portrait_world\<lparr>rekognition_send := \<lambda>b. Inl (Error ''timeout'')\<rparr>) studio_config [1, 2, 3]) =
     [NoFaceDetected]"
proof -
  have "errors (validateImage
       (portrait_world\<lparr>rekognition_send := \<lambda>b. Inl (Error ''timeout'')\<rparr>) studio_config [1, 2, 3]) =
     [NoFaceDetected]"
    by (subst portrait_errors)
       (simp_all add: portrait_world_fields face_step_errors blur_step_def
          calculateBlurScore_def detectFaces_def face_errors_def)
  then show ?thesis
    using C6_provider_error_reported_as_no_face
          [of "portrait_world\<lparr>rekognition_send := \<lambda>b. Inl (Error ''timeout'')\<rparr>" "[1, 2, 3]"
              portrait_info "Error ''timeout''" studio_config]
    by (simp add: portrait_world_fields portrait_info_fields format_or_unknown_def
          jpeg_is_not_heic)
qed

section \<open>A failing sharpness computation\<close>

text \<open>
  Claim C7 asks that a failure inside the sharpness computation is treated as a passing
  score. \<open>validateImage\<close> has the handler for it (it sets the score to 150, under the
  comment "Don't fail validation if blur detection fails"), but \<open>calculateBlurScore\<close>
  catches the error itself and returns 0, so the handler is never entered
  (\<open>calculateBlurScore_never_throws\<close>). The theorem is what happens instead, for every
  buffer that reaches step 5: the score is recorded as 0, which is below the threshold,
  the blur reason is pushed and the buffer is rejected.
\<close>

theorem C7_blur_failure_scores_zero_and_rejects:
  assumes "sharp_metadata w buffer = Inr info"
      and "\<not> is_heic_format (format_or_unknown (info_format info))"
      and "laplacian_variance w buffer = Inl e"
  shows "md_blurScore (metadata (validateImage w cfg buffer)) = Some (Num 0) \<and>
         Blurry (Num 0) \<in> set (errors (validateImage w cfg buffer)) \<and>
         \<not> isValid (validateImage w cfg buffer)"
proof -
  obtain errs4 where e:
    "errors (validateImage w cfg buffer) =
       errs4 @
       (case laplacian_variance w buffer of
          Inl e \<Rightarrow> [Blurry (Num 0)]
        | Inr score \<Rightarrow> if js_less score 150 then [Blurry score] else []) @
       (case detectFaces w buffer of Inl e \<Rightarrow> [FaceServiceUnavailable]
        | Inr faceData \<Rightarrow> face_errors faceData)"
    using validateImage_errors_decoded [OF assms(1,2)] by blast
  have in_errs: "Blurry (Num 0) \<in> set (errors (validateImage w cfg buffer))"
    by (simp add: e assms(3))
  then have "errors (validateImage w cfg buffer) \<noteq> []" by auto
  then have "\<not> isValid (validateImage w cfg buffer)"
    by (simp add: isValid_iff_no_errors)
  moreover have "md_blurScore (metadata (validateImage w cfg buffer)) = Some (Num 0)"
    using validateImage_blurScore_decoded [OF assms(1,2)] by (simp add: assms(3))
  ultimately show ?thesis using in_errs by simp
qed

theorem C7_witness:
  "md_blurScore (metadata (validateImage
       (portrait_world\<lparr>laplacian_variance := \<lambda>b. Inl (Error ''unsupported image'')\<rparr>)
       studio_config [1, 2, 3])) = Some (Num 0) \<and>
   Blurry (Num 0) \<in> set (errors (validateImage
       (portrait_world\<lparr>laplacian_variance := \<lambda>b. Inl (Error ''unsupported image'')\<rparr>)
       studio_config [1, 2, 3])) \<and>
   \<not> isValid (validateImage
       (portrait_world\<lparr>laplacian_variance := \<lambda>b. Inl (Error ''unsupported image'')\<rparr>)
       studio_config [1, 2, 3]) \<and>
   errors (validateImage
       (portrait_world\<lparr>laplacian_variance := \<lambda>b. Inl (Error ''unsupported image'')\<rparr>)
       studio_config [1, 2, 3]) = [Blurry (Num 0)]"
proof -
  have "errors (validateImage
       (portrait_world\<lparr>laplacian_variance := \<lambda>b. Inl (Error ''unsupported image'')\<rparr>)
       studio_config [1, 2, 3]) = [Blurry (Num 0)]"
    by (subst portrait_errors)
       (simp_all add: portrait_world_fields face_step_errors blur_step_def
          calculateBlurScore_def detectFaces_def face_errors_def maxFaceSize_step_def
          or_zero_def)
  then show ?thesis
    using C7_blur_failure_scores_zero_and_rejects
          [of "portrait_world\<lparr>laplacian_variance := \<lambda>b. Inl (Error ''unsupported image'')\<rparr>"
              "[1, 2, 3]" portrait_info "Error ''unsupported image''" studio_config]
    by (simp add: portrait_world_fields portrait_info_fields format_or_unknown_def
          jpeg_is_not_heic)
qed

section \<open>Default job options and the retry schedule\<close>

lemma parseInt_3: "parseInt ''3'' = Some 3"
  by (simp add: parseInt_def Let_def is_white_space_def is_digit_of_def digit_value_def
        digits_value_def or_zero_def)

lemma parseInt_5: "parseInt ''5'' = Some 5"
  by (simp add: parseInt_def Let_def is_white_space_def is_digit_of_def digit_value_def
        digits_value_def or_zero_def)

lemma parseInt_1000: "parseInt ''1000'' = Some 1000"
  by (simp add: parseInt_def Let_def is_white_space_def is_digit_of_def digit_value_def
        digits_value_def or_zero_def)

lemma parseInt_250: "parseInt ''250'' = Some 250"
  by (simp add: parseInt_def Let_def is_white_space_def is_digit_of_def digit_value_def
        digits_value_def or_zero_def)

lemma run_job_final: "job_final j \<Longrightarrow> run_job opts outcomes j = j"
  by (cases outcomes) simp_all

lemma run_job_failures:
  assumes "attempts opts = Some 3" and "backoff_delay opts = Some base"
  shows "run_job opts (replicate 1 False) enqueued_job =
           \<lparr>attemptsMade = 1, state = FAILED_RETRY_PENDING base\<rparr>"
    and "run_job opts (replicate 2 False) enqueued_job =
           \<lparr>attemptsMade = 2, state = FAILED_RETRY_PENDING (base * 2)\<rparr>"
    and "run_job opts (replicate (n + 3) False) enqueued_job =
           \<lparr>attemptsMade = 3, state = FAILED_TERMINAL\<rparr>"
proof -
  have r3: "replicate (n + 3) False = False # False # False # replicate n False"
    by (simp add: numeral_3_eq_3)
  show "run_job opts (replicate 1 False) enqueued_job =
           \<lparr>attemptsMade = 1, state = FAILED_RETRY_PENDING base\<rparr>"
    using assms
    by (simp add: enqueued_job_def job_final_def attempt_job_def backoff_delay_ms_def
          or_zero_def)
  show "run_job opts (replicate 2 False) enqueued_job =
           \<lparr>attemptsMade = 2, state = FAILED_RETRY_PENDING (base * 2)\<rparr>"
    using assms
    by (simp add: numeral_2_eq_2 enqueued_job_def job_final_def attempt_job_def
          backoff_delay_ms_def or_zero_def)
  show "run_job opts (replicate (n + 3) False) enqueued_job =
           \<lparr>attemptsMade = 3, state = FAILED_TERMINAL\<rparr>"
    using assms
    by (simp add: r3 enqueued_job_def job_final_def attempt_job_def backoff_delay_ms_def
          or_zero_def run_job_final)
qed

text \<open>
  Claim C8, amended. \<open>defaultJobOptions\<close> reads \<open>QUEUE_MAX_ATTEMPTS\<close> and
  \<open>QUEUE_BACKOFF_MS\<close> from the process environment and falls back to 3 and 1000 only
  when they are not set. With both unset, the maximum attempt count is 3 and the backoff
  is exponential with base delay 1000 ms; under the retry engine of the spec the delay
  before retry \<open>k\<close> is then \<open>1000 * 2^(k - 1)\<close> ms, a job whose handler always fails is
  waiting for a retry after one failure (1000 ms) and after two (2000 ms), and is
  terminal-failed, with exactly 3 attempts made, from the third failure on.
\<close>

theorem C8_default_options_and_retry_schedule:
  assumes "QUEUE_MAX_ATTEMPTS env = None" and "QUEUE_BACKOFF_MS env = None"
  shows "attempts (defaultJobOptions env) = Some 3 \<and>
         backoff_type (defaultJobOptions env) = ''exponential'' \<and>
         backoff_delay (defaultJobOptions env) = Some 1000 \<and>
         (\<forall>k. backoff_delay_ms (defaultJobOptions env) k = 1000 * 2 ^ (k - 1)) \<and>
         run_job (defaultJobOptions env) (replicate 1 False) enqueued_job =
           \<lparr>attemptsMade = 1, state = FAILED_RETRY_PENDING 1000\<rparr> \<and>
         run_job (defaultJobOptions env) (replicate 2 False) enqueued_job =
           \<lparr>attemptsMade = 2, state = FAILED_RETRY_PENDING 2000\<rparr> \<and>
         (\<forall>n. run_job (defaultJobOptions env) (replicate (n + 3) False) enqueued_job =
           \<lparr>attemptsMade = 3, state = FAILED_TERMINAL\<rparr>)"
proof -
  have a: "attempts (defaultJobOptions env) = Some 3"
    using assms by (simp add: defaultJobOptions_def parseInt_3)
  have b: "backoff_delay (defaultJobOptions env) = Some 1000"
    using assms by (simp add: defaultJobOptions_def parseInt_1000)
  have t: "backoff_type (defaultJobOptions env) = ''exponential''"
    by (simp add: defaultJobOptions_def Let_def)
  have d: "\<forall>k. backoff_delay_ms (defaultJobOptions env) k = 1000 * 2 ^ (k - 1)"
    by (simp add: backoff_delay_ms_def b or_zero_def)
  show ?thesis
    using a b t d run_job_failures [OF a b] by simp
qed

theorem C8_witness:
  "attempts (defaultJobOptions \<lparr>QUEUE_MAX_ATTEMPTS = None, QUEUE_BACKOFF_MS = None\<rparr>) = Some 3 \<and>
   backoff_delay (defaultJobOptions \<lparr>QUEUE_MAX_ATTEMPTS = None, QUEUE_BACKOFF_MS = None\<rparr>) =
     Some 1000 \<and>
   backoff_delay_ms (defaultJobOptions \<lparr>QUEUE_MAX_ATTEMPTS = None, QUEUE_BACKOFF_MS = None\<rparr>) 3 =
     4000 \<and>
   run_job (defaultJobOptions \<lparr>QUEUE_MAX_ATTEMPTS = None, QUEUE_BACKOFF_MS = None\<rparr>)
     [False, False, False, False] enqueued_job = \<lparr>attemptsMade = 3, state = FAILED_TERMINAL\<rparr>"
proof -
  have h: "QUEUE_MAX_ATTEMPTS \<lparr>QUEUE_MAX_ATTEMPTS = None, QUEUE_BACKOFF_MS = None\<rparr> = None"
          "QUEUE_BACKOFF_MS \<lparr>QUEUE_MAX_ATTEMPTS = None, QUEUE_BACKOFF_MS = None\<rparr> = None"
    by simp_all
  note c = C8_default_options_and_retry_schedule [OF h]
  have r: "[False, False, False, False] = replicate (1 + 3) False"
    by (simp add: numeral_3_eq_3)
  have "run_job (defaultJobOptions \<lparr>QUEUE_MAX_ATTEMPTS = None, QUEUE_BACKOFF_MS = None\<rparr>)
          (replicate (1 + 3) False) enqueued_job = \<lparr>attemptsMade = 3, state = FAILED_TERMINAL\<rparr>"
    using c by blast
  moreover have
    "backoff_delay_ms (defaultJobOptions \<lparr>QUEUE_MAX_ATTEMPTS = None, QUEUE_BACKOFF_MS = None\<rparr>) 3 =
       1000 * 2 ^ (3 - 1)"
    using c by blast
  ultimately show ?thesis
    using c unfolding r by simp
qed

theorem C8_counterexample:
  "attempts (defaultJobOptions \<lparr>QUEUE_MAX_ATTEMPTS = Some ''5'', QUEUE_BACKOFF_MS = Some ''250''\<rparr>) =
     Some 5 \<and>
   backoff_delay (defaultJobOptions
     \<lparr>QUEUE_MAX_ATTEMPTS = Some ''5'', QUEUE_BACKOFF_MS = Some ''250''\<rparr>) = Some 250 \<and>
   run_job (defaultJobOptions \<lparr>QUEUE_MAX_ATTEMPTS = Some ''5'', QUEUE_BACKOFF_MS = Some ''250''\<rparr>)
     [False, False, False] enqueued_job = \<lparr>attemptsMade = 3, state = FAILED_RETRY_PENDING 1000\<rparr>"
  by (simp add: defaultJobOptions_def parseInt_5 parseInt_250 enqueued_job_def job_final_def
        attempt_job_def backoff_delay_ms_def or_zero_def)

section \<open>The single-shot upload of a HEIC file\<close>

lemma convert_upload_keeps_heic:
  assumes "endsWith (toLowerCase (originalname file)) ''.heic'' \<or>
           (mimetype file = ''image/heic'' \<and>
            \<not> is_converted (convertToFormat w (file_buffer file) (upload_target req)))"
  shows "is_heic_upload (snd (convert_upload w req file)) (originalname file)"
  using assms
  by (auto simp add: convert_upload_def is_heic_upload_def is_converted_def Let_def
           split: conversion.splits)

lemma commit_upload_heic:
  assumes "is_heic_upload finalMimeType (originalname file)" and "s3_send_throws w = None"
  shows "image_table (snd (commit_upload w file processedBuffer finalMimeType validationResult st)) =
           image_table st @
           [new_image_row w (originalname file) finalMimeType processedBuffer 1920 1080
              validationResult]"
  using assms
  by (simp add: commit_upload_def s3_uploadFile_def Let_def split: sum.splits)

lemma heic_validation_result_fields:
  "isValid (heic_validation_result b)"
  "md_hash (metadata (heic_validation_result b)) = None"
  "md_blurScore (metadata (heic_validation_result b)) = None"
  "md_faceCount (metadata (heic_validation_result b)) = None"
  "md_faceSize (metadata (heic_validation_result b)) = None"
  by (simp_all add: heic_validation_result_def)

lemma image_table_cache_validation:
  "image_table (cache_validation w file validationResult st) = image_table st"
  by (simp add: cache_validation_def split: option.splits)

text \<open>
  Claim C10, amended. The handler decides on the MIME type after the conversion, not on
  the one that was uploaded. It skips the validation pipeline, with the hard-coded
  accepting result, for every upload whose original file name ends in \<open>.heic\<close> (in any
  letter case) and for every upload of MIME type \<open>image/heic\<close> whose conversion throws or
  returns the buffer it was given. When the blob upload succeeds, the record committed
  for such an upload has status VALIDATED, the placeholder dimensions 1920 x 1080 and no
  hash, sharpness or face metadata.
\<close>

theorem C10_heic_upload_commits_placeholder_record:
  assumes "req_file req = Some file"
      and "endsWith (toLowerCase (originalname file)) ''.heic'' \<or>
           (mimetype file = ''image/heic'' \<and>
            \<not> is_converted (convertToFormat w (file_buffer file) (upload_target req)))"
      and "s3_send_throws w = None"
  shows "let processedBuffer = fst (convert_upload w req file);
             finalMimeType = snd (convert_upload w req file);
             row = new_image_row w (originalname file) finalMimeType processedBuffer 1920 1080
                     (heic_validation_result processedBuffer)
         in upload_validation w cfg file processedBuffer finalMimeType =
              heic_validation_result processedBuffer \<and>
            image_table (snd (uploadImage w cfg req st)) = image_table st @ [row] \<and>
            img_status row = VALIDATED \<and> img_width row = 1920 \<and> img_height row = 1080 \<and>
            img_hash row = None \<and> img_blurScore row = None \<and>
            img_faceCount row = None \<and> img_faceSize row = None"
proof -
  define processedBuffer where "processedBuffer = fst (convert_upload w req file)"
  define finalMimeType where "finalMimeType = snd (convert_upload w req file)"
  have cu: "convert_upload w req file = (processedBuffer, finalMimeType)"
    by (simp add: processedBuffer_def finalMimeType_def)
  have heic: "is_heic_upload finalMimeType (originalname file)"
    unfolding finalMimeType_def using assms(2) by (rule convert_upload_keeps_heic)
  have v: "upload_validation w cfg file processedBuffer finalMimeType =
             heic_validation_result processedBuffer"
    by (simp add: upload_validation_def heic)
  have t: "image_table (snd (uploadImage w cfg req st)) =
             image_table st @
             [new_image_row w (originalname file) finalMimeType processedBuffer 1920 1080
                (heic_validation_result processedBuffer)]"
    by (simp add: uploadImage_def assms(1) cu v Let_def heic_validation_result_fields
          duplicate_found_def commit_upload_heic [OF heic assms(3)]
          image_table_cache_validation)
  show ?thesis
    using v t
    by (simp add: Let_def processedBuffer_def [symmetric] finalMimeType_def [symmetric]
          new_image_row_def heic_validation_result_fields)
qed

theorem C10_witness:
  "map (\<lambda>row. (img_status row, img_width row, img_height row, img_hash row, img_blurScore row,
               img_faceCount row, img_faceSize row))
     (image_table (snd (uploadImage portrait_world studio_config
        (file_upload ''image/heic'' ''IMG_1.HEIC'') empty_state))) =
   [(VALIDATED, 1920, 1080, None, None, None, None)]"
  using C10_heic_upload_commits_placeholder_record
          [of "file_upload ''image/heic'' ''IMG_1.HEIC''"
              "\<lparr>file_buffer = [1, 2, 3], mimetype = ''image/heic'', originalname = ''IMG_1.HEIC''\<rparr>"
              portrait_world studio_config empty_state]
  by (simp add: file_upload_fields heic_name_examples portrait_world_fields Let_def
        empty_state_fields)

theorem C10_counterexample:
  "map (\<lambda>row. (img_mimeType row, img_width row, img_height row, img_hash row, img_faceCount row))
     (image_table (snd (uploadImage (portrait_world\<lparr>convertToFormat := \<lambda>b t. ConvNew [4, 5, 6]\<rparr>)
        studio_config (file_upload ''image/heic'' ''IMG_1'') empty_state))) =
   [(''image/jpeg'', 800, 600, Some ''digest'', Some 1)]"
proof -
  define w where "w = portrait_world\<lparr>convertToFormat := \<lambda>b t. ConvNew [4, 5, 6]\<rparr>"
  have v: "validateImage w studio_config [4, 5, 6] =
           \<lparr>isValid = True, errors = [],
            metadata = \<lparr>md_width = 800, md_height = 600, md_size = length [4, 5, 6 :: byte],
                        md_format = ''jpeg'', md_blurScore = Some (Num 400),
                        md_faceCount = Some 1, md_faceSize = Some (1 / 4),
                        md_hash = Some (sha256_hex w [4, 5, 6])\<rparr>\<rparr>"
    by (rule validateImage_portrait) (simp_all add: w_def portrait_world_fields)
  have c: "convert_upload w (file_upload ''image/heic'' ''IMG_1'')
             \<lparr>file_buffer = [1, 2, 3], mimetype = ''image/heic'', originalname = ''IMG_1''\<rparr> =
           ([4, 5, 6], ''image/jpeg'')"
    by (simp add: convert_upload_def is_heic_upload_def upload_target_def file_upload_fields
          w_def)
  have n: "\<not> is_heic_upload ''image/jpeg'' ''IMG_1''"
    by (simp add: is_heic_upload_def heic_name_examples)
  have m: "getImageMetadata w [4, 5, 6] = Inr (800, 600, ''jpeg'')"
    by (simp add: getImageMetadata_def w_def portrait_world_fields portrait_info_fields
          or_zero_def format_or_unknown_def)
  have wf: "s3_send_throws w = None" "redis_set_throws w = None"
    "image_findFirst_throws w = None" "sha256_hex w = (\<lambda>b. ''digest'')"
    "getSignedUrl w = (\<lambda>k. Inr ''https://signed'')"
    by (simp_all add: w_def portrait_world_fields)
  have "map (\<lambda>row. (img_mimeType row, img_width row, img_height row, img_hash row,
                    img_faceCount row))
          (image_table (snd (uploadImage w studio_config (file_upload ''image/heic'' ''IMG_1'')
             empty_state))) =
        [(''image/jpeg'', 800, 600, Some ''digest'', Some 1)]"
    by (simp add: uploadImage_def file_upload_fields c upload_validation_def n v Let_def
          duplicate_found_def checkForDuplicates_def image_findFirst_def cache_validation_def
          commit_upload_def s3_uploadFile_def m getSignedDownloadUrl_def new_image_row_def
          empty_state_fields wf)
  then show ?thesis by (simp add: w_def)
qed

section \<open>Double addition\<close>

lemma bit_length_less: "m < 2 ^ k \<Longrightarrow> bit_length m \<le> k"
proof (induction k arbitrary: m)
  case 0
  then show ?case by (simp add: bit_length.simps)
next
  case (Suc k)
  show ?case
  proof (cases "m = 0")
    case True
    then show ?thesis by (simp add: bit_length.simps)
  next
    case False
    have "m div 2 < 2 ^ k" using Suc.prems by auto
    then have "bit_length (m div 2) \<le> k" by (rule Suc.IH)
    then show ?thesis using False by (subst bit_length.simps) simp
  qed
qed

lemma bit_length_eq: "2 ^ k \<le> m \<Longrightarrow> m < 2 ^ Suc k \<Longrightarrow> bit_length m = Suc k"
proof (induction k arbitrary: m)
  case 0
  then have "m = 1" by simp
  then show ?case by (simp add: bit_length.simps)
next
  case (Suc k)
  have "2 ^ k \<le> m div 2" "m div 2 < 2 ^ Suc k" using Suc.prems by auto
  then have "bit_length (m div 2) = Suc k" by (rule Suc.IH)
  moreover have "m \<noteq> 0" using Suc.prems by auto
  ultimately show ?case by (subst bit_length.simps) simp
qed

lemma round_to_double_safe: "\<bar>x\<bar> < 2 ^ 53 \<Longrightarrow> round_to_double x = x"
proof -
  assume "\<bar>x\<bar> < 2 ^ 53"
  then have "nat \<bar>x\<bar> < 2 ^ 53" by (simp add: nat_less_iff)
  then have "bit_length (nat \<bar>x\<bar>) \<le> 53" by (rule bit_length_less)
  then show ?thesis by (simp add: round_to_double_def Let_def)
qed

lemma js_add_safe: "\<bar>a + b\<bar> < 2 ^ 53 \<Longrightarrow> js_add a b = a + b"
  by (simp add: js_add_def round_to_double_safe)

lemma js_add_examples:
  "js_add 0 1 = 1" "js_add 1 1 = 2" "js_add 5 1 = 6" "js_add 7 1 = 8"
  by (simp_all add: js_add_safe)

text \<open>The first sum that is rounded: \<open>2^53 + 1\<close> is \<open>2^53\<close> again.\<close>

lemma js_add_rounds: "js_add 9007199254740992 1 = 9007199254740992"
proof -
  have "bit_length 9007199254740993 = Suc 53"
    by (rule bit_length_eq) simp_all
  then have b: "bit_length (nat \<bar>9007199254740992 + 1\<bar>) = 54" by simp
  show ?thesis
    unfolding js_add_def round_to_double_def Let_def b by simp
qed

section \<open>What a chunk append leaves in the session table\<close>

lemma recorded_progress_mark_failed:
  "recorded_progress (mark_failed sid st) sid' = recorded_progress st sid'"
  by (simp add: recorded_progress_def mark_failed_def uploadSession_update_def Let_def
        option.map_comp comp_def)

lemma recorded_progress_commit_chunks:
  "recorded_progress (snd (commit_chunks w req sid pb fm vr st)) sid' = recorded_progress st sid'"
  by (auto simp add: recorded_progress_def commit_chunks_def s3_uploadFile_def
        uploadSession_update_def Let_def option.map_comp comp_def
      split: sum.splits prod.splits option.splits)

lemma recorded_progress_process_chunks:
  "recorded_progress (snd (process_chunks w cfg req sid chunks st)) sid' =
     recorded_progress st sid'"
  by (simp add: process_chunks_def Let_def recorded_progress_mark_failed
        recorded_progress_commit_chunks split: sum.splits prod.splits)

lemma recorded_origin_mark_failed:
  "recorded_origin (mark_failed sid st) sid' = recorded_origin st sid'"
  by (simp add: recorded_origin_def mark_failed_def uploadSession_update_def Let_def
        option.map_comp comp_def)

lemma recorded_origin_commit_chunks:
  "recorded_origin (snd (commit_chunks w req sid pb fm vr st)) sid' = recorded_origin st sid'"
  by (auto simp add: recorded_origin_def commit_chunks_def s3_uploadFile_def
        uploadSession_update_def Let_def option.map_comp comp_def
      split: sum.splits prod.splits option.splits)

lemma recorded_origin_process_chunks:
  "recorded_origin (snd (process_chunks w cfg req sid chunks st)) sid' =
     recorded_origin st sid'"
  by (simp add: process_chunks_def Let_def recorded_origin_mark_failed
        recorded_origin_commit_chunks split: sum.splits prod.splits)

lemma store_chunk_table:
  "store_chunk w req sid st = Inr (chunks, st') \<Longrightarrow>
     uploadSession_table st' = uploadSession_table st"
  by (auto simp add: store_chunk_def Let_def split: sum.splits option.splits)

lemma store_chunk_succeeds:
  assumes "0 \<le> totalChunks req" and "totalChunks req < 2 ^ 32"
  shows "\<exists>chunks st'. store_chunk w req sid st = Inr (chunks, st')"
  using assms by (simp add: store_chunk_def new_Array_def Let_def split: option.splits)

lemma uploadChunk_records_progress:
  assumes "0 \<le> totalChunks req" and "totalChunks req < 2 ^ 32"
  shows "recorded_progress (snd (uploadChunk w cfg req st)) (session_of w req st) =
           Some (js_add (chunkIndex req) 1)"
proof -
  obtain sid st1 where g: "get_or_create_session w req st = (sid, st1)"
    by (cases "get_or_create_session w req st")
  have sid: "session_of w req st = sid" by (simp add: session_of_def g)
  obtain row where row: "uploadSession_table st1 sid = Some row"
    using row_after_get_or_create [of w req st] by (auto simp add: g)
  obtain chunks st2 where sc: "store_chunk w req sid st1 = Inr (chunks, st2)"
    using store_chunk_succeeds [OF assms] by blast
  have t2: "uploadSession_table st2 = uploadSession_table st1"
    using sc by (rule store_chunk_table)
  define st3 where
    "st3 = uploadSession_update sid
             (\<lambda>row. row\<lparr>uploadedChunks := js_add (chunkIndex req) 1\<rparr>) st2"
  have p3: "recorded_progress st3 sid = Some (js_add (chunkIndex req) 1)"
    by (simp add: st3_def recorded_progress_def uploadSession_update_def t2 row)
  obtain r st4 where pc: "process_chunks w cfg req sid chunks st3 = (r, st4)"
    by (cases "process_chunks w cfg req sid chunks st3")
  have p4: "recorded_progress st4 sid = recorded_progress st3 sid"
    using recorded_progress_process_chunks [of w cfg req sid chunks st3 sid] by (simp add: pc)
  have "recorded_progress (snd (uploadChunk w cfg req st)) sid = recorded_progress st3 sid"
    by (cases r)
       (simp_all add: uploadChunk_def g sc Let_def st3_def [symmetric] allChunksReceived_always
          pc p4 recorded_progress_mark_failed)
  then show ?thesis by (simp add: sid p3)
qed

text \<open>
  The handler writes \<open>uploadedChunks\<close> and the status of the session row and nothing
  else: the file name and the \<open>totalChunks\<close> stay as they are in the row the request
  found or created.
\<close>

lemma uploadChunk_keeps_origin:
  "recorded_origin (snd (uploadChunk w cfg req st)) (session_of w req st) =
   recorded_origin (snd (get_or_create_session w req st)) (session_of w req st)"
proof -
  obtain sid st1 where g: "get_or_create_session w req st = (sid, st1)"
    by (cases "get_or_create_session w req st")
  have sid: "session_of w req st = sid" by (simp add: session_of_def g)
  show ?thesis
  proof (cases "store_chunk w req sid st1")
    case (Inl e)
    then show ?thesis by (simp add: uploadChunk_def g sid)
  next
    case (Inr p)
    obtain chunks st2 where p: "p = (chunks, st2)" by (cases p)
    have sc: "store_chunk w req sid st1 = Inr (chunks, st2)" using Inr p by simp
    have t2: "uploadSession_table st2 = uploadSession_table st1"
      using sc by (rule store_chunk_table)
    define st3 where
      "st3 = uploadSession_update sid
               (\<lambda>row. row\<lparr>uploadedChunks := js_add (chunkIndex req) 1\<rparr>) st2"
    have o3: "recorded_origin st3 sid = recorded_origin st1 sid"
      by (cases "uploadSession_table st1 sid")
         (simp_all add: st3_def recorded_origin_def uploadSession_update_def t2)
    obtain r st4 where pc: "process_chunks w cfg req sid chunks st3 = (r, st4)"
      by (cases "process_chunks w cfg req sid chunks st3")
    have o4: "recorded_origin st4 sid = recorded_origin st3 sid"
      using recorded_origin_process_chunks [of w cfg req sid chunks st3 sid] by (simp add: pc)
    have "recorded_origin (snd (uploadChunk w cfg req st)) sid = recorded_origin st3 sid"
      by (cases r)
         (simp_all add: uploadChunk_def g sc Let_def st3_def [symmetric]
            allChunksReceived_always pc o4 recorded_origin_mark_failed)
    then show ?thesis by (simp add: sid o3 g)
  qed
qed

lemma find_session_known:
  assumes "sid \<noteq> []" and "uploadSession_table st sid \<noteq> None"
  shows "session_of w (req\<lparr>sessionId := Some sid\<rparr>) st = sid"
  using assms
  by (auto simp add: session_of_def get_or_create_session_def find_session_def
           split: option.splits)


section \<open>Single-chunk uploads of the portrait\<close>

lemma process_chunks_portrait:
  assumes "find (\<lambda>row. img_hash row = Some ''digest'') (image_table st) = None"
      and "length b \<le> 10485760"
  shows "process_chunks portrait_world studio_config (chunk_request s 1 0) sid [Some b] st =
           commit_chunks portrait_world (chunk_request s 1 0) sid b ''image/jpeg''
             \<lparr>isValid = True, errors = [],
              metadata = \<lparr>md_width = 800, md_height = 600, md_size = length b,
                          md_format = ''jpeg'', md_blurScore = Some (Num 400),
                          md_faceCount = Some 1, md_faceSize = Some (1 / 4),
                          md_hash = Some ''digest''\<rparr>\<rparr> st"
proof -
  have v: "validateImage portrait_world studio_config b =
           \<lparr>isValid = True, errors = [],
            metadata = \<lparr>md_width = 800, md_height = 600, md_size = length b,
                        md_format = ''jpeg'', md_blurScore = Some (Num 400),
                        md_faceCount = Some 1, md_faceSize = Some (1 / 4),
                        md_hash = Some (sha256_hex portrait_world b)\<rparr>\<rparr>"
    using assms(2) by (intro validateImage_portrait) (simp_all add: portrait_world_fields)
  have n: "\<not> is_heic_upload ''image/jpeg'' ''face.jpg''"
    by (simp add: is_heic_upload_def heic_name_examples)
  show ?thesis
    by (simp add: process_chunks_def convert_chunks_def chunk_request_fields n v
          duplicate_found_def checkForDuplicates_def image_findFirst_def assms(1)
          portrait_world_fields)
qed

lemma process_chunks_portrait_duplicate:
  assumes "find (\<lambda>row. img_hash row = Some ''digest'') (image_table st) = Some found"
      and "length b \<le> 10485760"
  shows "process_chunks portrait_world studio_config (chunk_request s 1 0) sid [Some b] st =
           (Inr Duplicate_image_detected, mark_failed sid st)"
proof -
  have v: "validateImage portrait_world studio_config b =
           \<lparr>isValid = True, errors = [],
            metadata = \<lparr>md_width = 800, md_height = 600, md_size = length b,
                        md_format = ''jpeg'', md_blurScore = Some (Num 400),
                        md_faceCount = Some 1, md_faceSize = Some (1 / 4),
                        md_hash = Some (sha256_hex portrait_world b)\<rparr>\<rparr>"
    using assms(2) by (intro validateImage_portrait) (simp_all add: portrait_world_fields)
  have n: "\<not> is_heic_upload ''image/jpeg'' ''face.jpg''"
    by (simp add: is_heic_upload_def heic_name_examples)
  show ?thesis
    by (simp add: process_chunks_def convert_chunks_def chunk_request_fields n v
          duplicate_found_def checkForDuplicates_def image_findFirst_def assms(1)
          portrait_world_fields)
qed

lemma commit_chunks_portrait:
  shows "commit_chunks portrait_world (chunk_request s 1 0) sid b ''image/jpeg'' vr st =
           (Inr (Completed (new_image_row portrait_world ''face.jpg'' ''image/jpeg'' b 800 600 vr)
                   ''https://signed''),
            (uploadSession_update sid
               (\<lambda>row. row\<lparr>us_status := COMPLETED,
                           us_s3Key := Some (ImagesKey 1700000000000 ''face.jpg'')\<rparr>)
               (st\<lparr>s3_bucket := (s3_bucket st)(ImagesKey 1700000000000 ''face.jpg'' \<mapsto>
                                     (b, ''image/jpeg'')),
                    image_table := image_table st @
                      [new_image_row portrait_world ''face.jpg'' ''image/jpeg'' b 800 600 vr]\<rparr>))
            \<lparr>chunkStorage := (chunkStorage st)(sid := None)\<rparr>)"
  by (simp add: commit_chunks_def s3_uploadFile_def getImageMetadata_def
        getSignedDownloadUrl_def chunk_request_fields portrait_world_fields portrait_info_fields
        or_zero_def format_or_unknown_def Let_def uploadSession_update_def)

text \<open>
  The portrait sent as the only chunk of a new session, and the store it leaves: one
  record with the digest, and the session completed.
\<close>

lemma single_chunk_portrait:
  "fst (uploadChunk portrait_world studio_config (chunk_request None 1 0) empty_state) =
     Completed (new_image_row portrait_world ''face.jpg'' ''image/jpeg'' [65, 66, 67] 800 600
        \<lparr>isValid = True, errors = [],
         metadata = \<lparr>md_width = 800, md_height = 600, md_size = 3,
                     md_format = ''jpeg'', md_blurScore = Some (Num 400),
                     md_faceCount = Some 1, md_faceSize = Some (1 / 4),
                     md_hash = Some ''digest''\<rparr>\<rparr>) ''https://signed''"
  "map img_hash (image_table (snd (uploadChunk portrait_world studio_config
     (chunk_request None 1 0) empty_state))) = [Some ''digest'']"
  "uploadSession_table (snd (uploadChunk portrait_world studio_config
     (chunk_request None 1 0) empty_state)) ''session-1'' =
     Some \<lparr>us_filename = ''face.jpg'', us_totalChunks = 1, uploadedChunks = 1,
           us_status = COMPLETED, us_s3Key = Some (ImagesKey 1700000000000 ''face.jpg''),
           expiresAt = 1700086400000\<rparr>"
  "chunkStorage (snd (uploadChunk portrait_world studio_config
     (chunk_request None 1 0) empty_state)) ''session-1'' = None"
proof -
  have a: "array_set [None] 0 b = [Some b]" for b :: buffer
    by (simp add: array_set_def)
  have l: "length [65, 66, 67 :: byte] = 3"
    by simp
  have p: "process_chunks portrait_world studio_config (chunk_request s 1 0) sid
             [Some [65, 66, 67]] st =
           commit_chunks portrait_world (chunk_request s 1 0) sid [65, 66, 67] ''image/jpeg''
             \<lparr>isValid = True, errors = [],
              metadata = \<lparr>md_width = 800, md_height = 600, md_size = 3,
                          md_format = ''jpeg'', md_blurScore = Some (Num 400),
                          md_faceCount = Some 1, md_faceSize = Some (1 / 4),
                          md_hash = Some ''digest''\<rparr>\<rparr> st"
    if "image_table st = []" for s sid st
    using process_chunks_portrait [of st "[65, 66, 67]" s sid, unfolded l] that by simp
  note defs = uploadChunk_def get_or_create_session_def find_session_def create_session_def
    store_chunk_def new_Array_def chunk_request_fields empty_state_fields
    portrait_world_fields Let_def a allChunksReceived_always p commit_chunks_portrait
    uploadSession_update_def js_add_examples
  show "fst (uploadChunk portrait_world studio_config (chunk_request None 1 0) empty_state) =
     Completed (new_image_row portrait_world ''face.jpg'' ''image/jpeg'' [65, 66, 67] 800 600
        \<lparr>isValid = True, errors = [],
         metadata = \<lparr>md_width = 800, md_height = 600, md_size = 3,
                     md_format = ''jpeg'', md_blurScore = Some (Num 400),
                     md_faceCount = Some 1, md_faceSize = Some (1 / 4),
                     md_hash = Some ''digest''\<rparr>\<rparr>) ''https://signed''"
    by (simp add: defs)
  show "map img_hash (image_table (snd (uploadChunk portrait_world studio_config
     (chunk_request None 1 0) empty_state))) = [Some ''digest'']"
    by (simp add: defs new_image_row_def)
  show "uploadSession_table (snd (uploadChunk portrait_world studio_config
     (chunk_request None 1 0) empty_state)) ''session-1'' =
     Some \<lparr>us_filename = ''face.jpg'', us_totalChunks = 1, uploadedChunks = 1,
           us_status = COMPLETED, us_s3Key = Some (ImagesKey 1700000000000 ''face.jpg''),
           expiresAt = 1700086400000\<rparr>"
    by (simp add: defs)
  show "chunkStorage (snd (uploadChunk portrait_world studio_config
     (chunk_request None 1 0) empty_state)) ''session-1'' = None"
    by (simp add: defs)
qed

text \<open>The same chunk sent again to the session it completed.\<close>

lemma single_chunk_portrait_again:
  assumes "map img_hash (image_table st) = [Some ''digest'']"
      and "uploadSession_table st ''session-1'' = Some row"
      and "chunkStorage st ''session-1'' = None"
  shows "fst (uploadChunk portrait_world studio_config (chunk_request (Some ''session-1'') 1 0) st) =
           Duplicate_image_detected"
    and "uploadSession_table (snd (uploadChunk portrait_world studio_config
           (chunk_request (Some ''session-1'') 1 0) st)) ''session-1'' =
           Some (row\<lparr>uploadedChunks := 1, us_status := FAILED\<rparr>)"
proof -
  have a: "array_set [None] 0 b = [Some b]" for b :: buffer
    by (simp add: array_set_def)
  obtain found where "image_table st = [found]" "img_hash found = Some ''digest''"
    using assms(1) by auto
  then have f: "find (\<lambda>row. img_hash row = Some ''digest'') (image_table st') = Some found"
    if "image_table st' = image_table st" for st'
    using that by simp
  have p: "process_chunks portrait_world studio_config (chunk_request s 1 0) sid
             [Some [65, 66, 67]] st' = (Inr Duplicate_image_detected, mark_failed sid st')"
    if "image_table st' = image_table st" for s sid st'
    using process_chunks_portrait_duplicate [OF f [OF that], of "[65, 66, 67]" s sid] by simp
  note defs = uploadChunk_def get_or_create_session_def find_session_def
    store_chunk_def new_Array_def chunk_request_fields assms(2,3)
    portrait_world_fields Let_def a allChunksReceived_always p
    uploadSession_update_def mark_failed_def js_add_examples
  show "fst (uploadChunk portrait_world studio_config (chunk_request (Some ''session-1'') 1 0) st) =
           Duplicate_image_detected"
    by (simp add: defs)
  show "uploadSession_table (snd (uploadChunk portrait_world studio_config
           (chunk_request (Some ''session-1'') 1 0) st)) ''session-1'' =
           Some (row\<lparr>uploadedChunks := 1, us_status := FAILED\<rparr>)"
    by (simp add: defs)
qed

section \<open>The progress recorded by a chunk append\<close>

text \<open>
  Claim C2, amended. The value recorded as \<open>uploadedChunks\<close> by a chunk append is
  \<open>chunkIndex + 1\<close> (an addition of doubles, exact below \<open>2^53\<close>): the index of the chunk
  just appended plus one, whatever was received before. Appending the same index to the
  session again records the same value again. (The hypotheses say that
  \<open>new Array(totalChunks)\<close> does not throw.)
\<close>

theorem C2_recorded_progress_is_index_plus_one:
  assumes "0 \<le> totalChunks req" and "totalChunks req < 2 ^ 32"
  shows "recorded_progress (snd (uploadChunk w cfg req st)) (session_of w req st) =
           Some (js_add (chunkIndex req) 1) \<and>
         (\<bar>chunkIndex req + 1\<bar> < 2 ^ 53 \<longrightarrow>
            recorded_progress (snd (uploadChunk w cfg req st)) (session_of w req st) =
              Some (chunkIndex req + 1)) \<and>
         (session_of w req st \<noteq> [] \<longrightarrow>
            recorded_progress
              (snd (uploadChunk w' cfg (req\<lparr>sessionId := Some (session_of w req st)\<rparr>)
                      (snd (uploadChunk w cfg req st))))
              (session_of w req st) =
            recorded_progress (snd (uploadChunk w cfg req st)) (session_of w req st))"
proof -
  define sid where "sid = session_of w req st"
  define st1 where "st1 = snd (uploadChunk w cfg req st)"
  have first: "recorded_progress st1 sid = Some (js_add (chunkIndex req) 1)"
    unfolding st1_def sid_def using assms by (rule uploadChunk_records_progress)
  have exact: "recorded_progress st1 sid = Some (chunkIndex req + 1)"
    if "\<bar>chunkIndex req + 1\<bar> < 2 ^ 53"
    using first that by (simp add: js_add_safe)
  have again: "recorded_progress (snd (uploadChunk w' cfg (req\<lparr>sessionId := Some sid\<rparr>) st1)) sid =
                 Some (js_add (chunkIndex req) 1)" if "sid \<noteq> []"
  proof -
    have "uploadSession_table st1 sid \<noteq> None"
      using first by (auto simp add: recorded_progress_def)
    then have s: "session_of w' (req\<lparr>sessionId := Some sid\<rparr>) st1 = sid"
      using that by (intro find_session_known)
    show ?thesis
      using uploadChunk_records_progress [of "req\<lparr>sessionId := Some sid\<rparr>" w' cfg st1] assms
      by (simp add: s)
  qed
  show ?thesis
    using first exact again by (simp add: sid_def [symmetric] st1_def [symmetric])
qed

theorem C2_witness:
  "recorded_progress (snd (uploadChunk portrait_world studio_config (chunk_request None 3 1)
      empty_state)) ''session-1'' = Some 2 \<and>
   recorded_progress
     (snd (uploadChunk portrait_world studio_config (chunk_request (Some ''session-1'') 3 1)
        (snd (uploadChunk portrait_world studio_config (chunk_request None 3 1) empty_state))))
     ''session-1'' = Some 2"
  using C2_recorded_progress_is_index_plus_one
          [of "chunk_request None 3 1" portrait_world studio_config empty_state portrait_world]
  by (simp add: session_of_new chunk_request_fields portrait_world_fields
        chunk_request_with_session js_add_examples)

text \<open>
  Where the claim fails. Index 5 appended to a new session of one chunk records 6, with
  one index received and a \<open>totalChunks\<close> of 1. The portrait sent as the only chunk of a
  session is answered with the completed upload; the same chunk sent to that session
  again is answered "Duplicate image detected" and turns the session from COMPLETED to
  FAILED.
\<close>

theorem C2_counterexample:
  "recorded_progress (snd (uploadChunk portrait_world studio_config (chunk_request None 1 5)
      empty_state)) ''session-1'' = Some 6 \<and>
   recorded_origin (snd (uploadChunk portrait_world studio_config (chunk_request None 1 5)
      empty_state)) ''session-1'' = Some (''face.jpg'', 1) \<and>
   card (set (map chunkIndex [chunk_request None 1 5])) = 1 \<and>
   fst (uploadChunk portrait_world studio_config (chunk_request None 1 0) empty_state) =
     Completed (new_image_row portrait_world ''face.jpg'' ''image/jpeg'' [65, 66, 67] 800 600
        \<lparr>isValid = True, errors = [],
         metadata = \<lparr>md_width = 800, md_height = 600, md_size = 3,
                     md_format = ''jpeg'', md_blurScore = Some (Num 400),
                     md_faceCount = Some 1, md_faceSize = Some (1 / 4),
                     md_hash = Some ''digest''\<rparr>\<rparr>) ''https://signed'' \<and>
   recorded_status (snd (uploadChunk portrait_world studio_config (chunk_request None 1 0)
      empty_state)) ''session-1'' = Some COMPLETED \<and>
   fst (uploadChunk portrait_world studio_config (chunk_request (Some ''session-1'') 1 0)
          (snd (uploadChunk portrait_world studio_config (chunk_request None 1 0) empty_state))) =
     Duplicate_image_detected \<and>
   recorded_status
     (snd (uploadChunk portrait_world studio_config (chunk_request (Some ''session-1'') 1 0)
        (snd (uploadChunk portrait_world studio_config (chunk_request None 1 0) empty_state))))
     ''session-1'' = Some FAILED \<and>
   recorded_progress
     (snd (uploadChunk portrait_world studio_config (chunk_request (Some ''session-1'') 1 0)
        (snd (uploadChunk portrait_world studio_config (chunk_request None 1 0) empty_state))))
     ''session-1'' = Some 1"
proof -
  have six: "recorded_progress (snd (uploadChunk portrait_world studio_config
               (chunk_request None 1 5) empty_state)) ''session-1'' = Some 6"
    using uploadChunk_records_progress
            [of "chunk_request None 1 5" portrait_world studio_config empty_state]
    by (simp add: session_of_new chunk_request_fields portrait_world_fields js_add_examples)
  have one: "recorded_origin (snd (uploadChunk portrait_world studio_config
               (chunk_request None 1 5) empty_state)) ''session-1'' = Some (''face.jpg'', 1)"
    using uploadChunk_keeps_origin
            [of portrait_world studio_config "chunk_request None 1 5" empty_state]
    by (simp add: session_of_new chunk_request_fields portrait_world_fields
          get_or_create_session_def find_session_def create_session_def recorded_origin_def)
  note first = single_chunk_portrait
  note again = single_chunk_portrait_again [OF first(2) first(3) first(4)]
  have completed: "recorded_status (snd (uploadChunk portrait_world studio_config
                      (chunk_request None 1 0) empty_state)) ''session-1'' = Some COMPLETED"
    by (simp add: recorded_status_def first(3))
  have failed: "recorded_status
                  (snd (uploadChunk portrait_world studio_config
                     (chunk_request (Some ''session-1'') 1 0)
                     (snd (uploadChunk portrait_world studio_config (chunk_request None 1 0)
                        empty_state))))
                  ''session-1'' = Some FAILED"
    by (simp add: recorded_status_def again(2))
  have same: "recorded_progress
                (snd (uploadChunk portrait_world studio_config
                   (chunk_request (Some ''session-1'') 1 0)
                   (snd (uploadChunk portrait_world studio_config (chunk_request None 1 0)
                      empty_state))))
                ''session-1'' = Some 1"
    by (simp add: recorded_progress_def again(2))
  have indices: "card (set (map chunkIndex [chunk_request None 1 5])) = 1"
    by simp
  show ?thesis
    using six one indices first(1) completed again(1) failed same by blast
qed

section \<open>A chunk index out of range\<close>

lemma validateChunkUpload_chunkIndex:
  "''chunkIndex'' \<in> set (validateChunkUpload req) \<longleftrightarrow>
     chunkIndex req < 0 \<or> 10 ^ 21 \<le> chunkIndex req"
  by (auto simp add: validateChunkUpload_def)

lemma validateChunkUpload_passes:
  "validateChunkUpload req = [] \<longleftrightarrow>
     (case sessionId req of None \<Rightarrow> True | Some s \<Rightarrow> 1 \<le> length s \<and> length s \<le> 255) \<and>
     1 \<le> length (filename req) \<and> length (filename req) \<le> 255 \<and>
     toLowerCase (mimeType req) \<in>
       set [''image/jpeg'', ''image/jpg'', ''image/png'', ''image/heic''] \<and>
     1 \<le> totalChunks req \<and> totalChunks req \<le> 1000 \<and>
     0 \<le> chunkIndex req \<and> chunkIndex req < 10 ^ 21 \<and>
     1 \<le> length (chunkData req)"
  unfolding validateChunkUpload_def by (simp only: append_is_Nil_conv) auto

lemma validateChunkUpload_totalChunks:
  "validateChunkUpload req = [] \<Longrightarrow> 1 \<le> totalChunks req \<and> totalChunks req \<le> 1000"
  by (simp add: validateChunkUpload_passes)

lemma validateChunkUpload_example:
  "0 \<le> i \<Longrightarrow> i < 10 ^ 21 \<Longrightarrow> 1 \<le> n \<Longrightarrow> n \<le> 1000 \<Longrightarrow>
     validateChunkUpload (chunk_request None n i) = []"
  by (simp add: validateChunkUpload_def chunk_request_fields toLowerCase_def
        toLowerCase_char_def)

text \<open>
  Claim C4, amended. The only range check on \<open>chunkIndex\<close> is the validator's
  "non-negative integer": an index that is negative, or \<open>10^21\<close> or more, is answered
  400 "Validation failed" naming \<open>chunkIndex\<close> before the controller runs, and the store
  does not change. The validation passes exactly when the six fields pass their own
  checks, none of which compares \<open>chunkIndex\<close> with \<open>totalChunks\<close>. A request that passes
  it with \<open>chunkIndex \<ge> totalChunks\<close> is handed to the controller, which sets
  \<open>uploadedChunks\<close> of the session to \<open>chunkIndex + 1\<close>.
\<close>

theorem C4_index_checked_below_only:
  "(chunkIndex req < 0 \<or> 10 ^ 21 \<le> chunkIndex req \<longrightarrow>
      chunked_upload_route w cfg req st = (Validation_failed (validateChunkUpload req), st) \<and>
      ''chunkIndex'' \<in> set (validateChunkUpload req)) \<and>
   (validateChunkUpload req = [] \<longleftrightarrow>
      (case sessionId req of None \<Rightarrow> True | Some s \<Rightarrow> 1 \<le> length s \<and> length s \<le> 255) \<and>
      1 \<le> length (filename req) \<and> length (filename req) \<le> 255 \<and>
      toLowerCase (mimeType req) \<in>
        set [''image/jpeg'', ''image/jpg'', ''image/png'', ''image/heic''] \<and>
      1 \<le> totalChunks req \<and> totalChunks req \<le> 1000 \<and>
      0 \<le> chunkIndex req \<and> chunkIndex req < 10 ^ 21 \<and>
      1 \<le> length (chunkData req)) \<and>
   (validateChunkUpload req = [] \<and> totalChunks req \<le> chunkIndex req \<longrightarrow>
      chunked_upload_route w cfg req st = uploadChunk w cfg req st \<and>
      recorded_progress (snd (chunked_upload_route w cfg req st)) (session_of w req st) =
        Some (js_add (chunkIndex req) 1) \<and>
      (chunkIndex req + 1 < 2 ^ 53 \<longrightarrow>
         recorded_progress (snd (chunked_upload_route w cfg req st)) (session_of w req st) =
           Some (chunkIndex req + 1)))"
proof -
  have rejected: "chunked_upload_route w cfg req st = (Validation_failed (validateChunkUpload req), st) \<and>
                  ''chunkIndex'' \<in> set (validateChunkUpload req)"
    if bad: "chunkIndex req < 0 \<or> 10 ^ 21 \<le> chunkIndex req"
  proof -
    have m: "''chunkIndex'' \<in> set (validateChunkUpload req)"
      using bad by (simp add: validateChunkUpload_chunkIndex)
    then have "validateChunkUpload req \<noteq> []" by auto
    then show ?thesis using m by (simp add: chunked_upload_route_def)
  qed
  have passed: "chunked_upload_route w cfg req st = uploadChunk w cfg req st \<and>
                recorded_progress (snd (chunked_upload_route w cfg req st)) (session_of w req st) =
                  Some (js_add (chunkIndex req) 1) \<and>
                (chunkIndex req + 1 < 2 ^ 53 \<longrightarrow>
                   recorded_progress (snd (chunked_upload_route w cfg req st)) (session_of w req st) =
                     Some (chunkIndex req + 1))"
    if ok: "validateChunkUpload req = [] \<and> totalChunks req \<le> chunkIndex req"
  proof -
    have r: "chunked_upload_route w cfg req st = uploadChunk w cfg req st"
      using ok by (simp add: chunked_upload_route_def)
    have t: "0 \<le> totalChunks req" "totalChunks req < 2 ^ 32"
      using validateChunkUpload_totalChunks [of req] ok by auto
    have p: "recorded_progress (snd (uploadChunk w cfg req st)) (session_of w req st) =
               Some (js_add (chunkIndex req) 1)"
      using t by (rule uploadChunk_records_progress)
    have "0 \<le> chunkIndex req" using ok t by simp
    then have "js_add (chunkIndex req) 1 = chunkIndex req + 1" if "chunkIndex req + 1 < 2 ^ 53"
      using that by (intro js_add_safe) simp
    then show ?thesis using r p by simp
  qed
  show ?thesis
    using rejected passed validateChunkUpload_passes [of req] by blast
qed

theorem C4_witness:
  "chunked_upload_route portrait_world studio_config (chunk_request None 3 (- 1)) empty_state =
     (Validation_failed [''chunkIndex''], empty_state) \<and>
   validateChunkUpload (chunk_request None 3 7) = [] \<and>
   recorded_progress (snd (chunked_upload_route portrait_world studio_config
     (chunk_request None 3 7) empty_state)) ''session-1'' = Some 8"
proof -
  have v: "validateChunkUpload (chunk_request None 3 (- 1)) = [''chunkIndex'']"
    by (simp add: validateChunkUpload_def chunk_request_fields toLowerCase_def
          toLowerCase_char_def)
  have "chunked_upload_route portrait_world studio_config (chunk_request None 3 (- 1)) empty_state =
          (Validation_failed [''chunkIndex''], empty_state)"
    using C4_index_checked_below_only
            [of "chunk_request None 3 (- 1)" portrait_world studio_config empty_state]
    by (simp add: chunk_request_fields v)
  moreover have "validateChunkUpload (chunk_request None 3 7) = [] \<and>
     recorded_progress (snd (chunked_upload_route portrait_world studio_config
       (chunk_request None 3 7) empty_state)) ''session-1'' = Some 8"
    using C4_index_checked_below_only
            [of "chunk_request None 3 7" portrait_world studio_config empty_state]
    by (auto simp add: chunk_request_fields validateChunkUpload_example session_of_new
          portrait_world_fields)
  ultimately show ?thesis by simp
qed

text \<open>
  Where the claim fails. Index 5 of a one-chunk upload, with no session id, passes the
  validation. The controller creates the session, sets its \<open>uploadedChunks\<close> to 6, finds
  no stored slot undefined (the empty slots are skipped), fails to concatenate, answers
  500 "Failed to process image" and leaves the session FAILED: the store has changed.
\<close>

theorem C4_counterexample:
  "validateChunkUpload (chunk_request None 1 5) = [] \<and>
   fst (chunked_upload_route portrait_world studio_config (chunk_request None 1 5) empty_state) =
     Failed_to_process_image TypeError \<and>
   uploadSession_table (snd (chunked_upload_route portrait_world studio_config
     (chunk_request None 1 5) empty_state)) ''session-1'' =
     Some \<lparr>us_filename = ''face.jpg'', us_totalChunks = 1, uploadedChunks = 6,
           us_status = FAILED, us_s3Key = None, expiresAt = 1700086400000\<rparr> \<and>
   uploadSession_table empty_state ''session-1'' = None"
proof -
  have v: "validateChunkUpload (chunk_request None 1 5) = []"
    by (simp add: validateChunkUpload_example)
  have a: "array_set [None] 5 b = [None, None, None, None, None, Some b]" for b :: buffer
    by (simp add: array_set_def numeral_eq_Suc)
  have h: "process_chunks portrait_world studio_config (chunk_request None 1 5) ''session-1''
             [None, None, None, None, None, Some b] st = (Inl TypeError, st)" for b st
    by (rule process_chunks_hole) simp
  show ?thesis
    by (simp add: v chunked_upload_route_def uploadChunk_def get_or_create_session_def
          find_session_def create_session_def store_chunk_def new_Array_def chunk_request_fields
          empty_state_fields portrait_world_fields Let_def a h allChunksReceived_always
          mark_failed_def uploadSession_update_def js_add_examples)
qed

section \<open>A chunk append to an unknown or a terminal session\<close>

lemma uploadChunk_unknown_session:
  assumes "uploadSession_table st sid = None"
  shows "uploadChunk w cfg (req\<lparr>sessionId := Some sid\<rparr>) st =
         uploadChunk w cfg (req\<lparr>sessionId := None\<rparr>) st"
proof -
  have s: "store_chunk w (req\<lparr>sessionId := x\<rparr>) = store_chunk w req" for x
    by (intro ext) (simp add: store_chunk_def cong: sum.case_cong option.case_cong)
  have c: "convert_chunks w (req\<lparr>sessionId := x\<rparr>) = convert_chunks w req" for x
    by (intro ext) (simp add: convert_chunks_def cong: conversion.case_cong if_cong)
  have m: "commit_chunks w (req\<lparr>sessionId := x\<rparr>) = commit_chunks w req" for x
    by (intro ext)
       (simp add: commit_chunks_def cong: sum.case_cong prod.case_cong if_cong)
  have p: "process_chunks w cfg (req\<lparr>sessionId := x\<rparr>) = process_chunks w cfg req" for x
    by (intro ext)
       (simp add: process_chunks_def c m cong: sum.case_cong prod.case_cong if_cong)
  have g: "get_or_create_session w (req\<lparr>sessionId := Some sid\<rparr>) st =
           get_or_create_session w (req\<lparr>sessionId := None\<rparr>) st"
    using assms
    by (simp add: get_or_create_session_def find_session_def create_session_def)
  show ?thesis
    by (simp add: uploadChunk_def g s p Let_def
          cong: prod.case_cong sum.case_cong if_cong)
qed

lemma find_session_status:
  "find_session req (uploadSession_update sid (\<lambda>row. row\<lparr>us_status := status\<rparr>) st) =
   find_session req st"
  by (simp add: find_session_def uploadSession_update_def split: option.splits)

lemma duplicate_found_cong:
  "image_table st' = image_table st \<Longrightarrow>
     duplicate_found w st' validationResult = duplicate_found w st validationResult"
  by (simp add: duplicate_found_def checkForDuplicates_def image_findFirst_def
        cong: option.case_cong)

lemma commit_chunks_cong:
  assumes "image_table st' = image_table st"
  shows "fst (commit_chunks w req sid pb fm vr st') = fst (commit_chunks w req sid pb fm vr st) \<and>
         image_table (snd (commit_chunks w req sid pb fm vr st')) =
         image_table (snd (commit_chunks w req sid pb fm vr st))"
  using assms
  by (auto simp add: commit_chunks_def s3_uploadFile_def uploadSession_update_def Let_def
           split: sum.splits prod.splits option.splits)

lemma image_table_mark_failed: "image_table (mark_failed sid st) = image_table st"
  by (simp add: mark_failed_def uploadSession_update_def Let_def)

lemma process_chunks_cong:
  assumes "image_table st' = image_table st"
  shows "fst (process_chunks w cfg req sid chunks st') = fst (process_chunks w cfg req sid chunks st) \<and>
         image_table (snd (process_chunks w cfg req sid chunks st')) =
         image_table (snd (process_chunks w cfg req sid chunks st))"
  using assms commit_chunks_cong [OF assms]
  by (simp add: process_chunks_def Let_def duplicate_found_cong [OF assms]
        image_table_mark_failed split: sum.splits prod.splits)

lemma store_chunk_Inl_cong:
  "store_chunk w req sid st = Inl e \<Longrightarrow> chunkStorage st' sid = chunkStorage st sid \<Longrightarrow>
     store_chunk w req sid st' = Inl e"
  by (auto simp add: store_chunk_def Let_def split: sum.splits option.splits)

lemma store_chunk_Inr_cong:
  "store_chunk w req sid st = Inr (chunks, st2) \<Longrightarrow> chunkStorage st' sid = chunkStorage st sid \<Longrightarrow>
     store_chunk w req sid st' = Inr (chunks, st'\<lparr>chunkStorage := (chunkStorage st')(sid \<mapsto> chunks)\<rparr>)"
  by (auto simp add: store_chunk_def Let_def split: sum.splits option.splits)

lemma store_chunk_image_table:
  "store_chunk w req sid st = Inr (chunks, st2) \<Longrightarrow> image_table st2 = image_table st"
  by (auto simp add: store_chunk_def Let_def split: sum.splits option.splits)

lemma get_or_create_session_cong:
  assumes "find_session req st' = find_session req st"
  shows "fst (get_or_create_session w req st') = fst (get_or_create_session w req st)"
  using assms by (simp add: get_or_create_session_def split: option.splits)

lemma image_table_get_or_create:
  "image_table (snd (get_or_create_session w req st)) = image_table st"
  by (simp add: get_or_create_session_def create_session_def split: option.splits)

lemma uploadChunk_cong:
  assumes f: "find_session req st' = find_session req st"
      and c: "chunkStorage st' = chunkStorage st"
      and i: "image_table st' = image_table st"
  shows "fst (uploadChunk w cfg req st') = fst (uploadChunk w cfg req st) \<and>
         image_table (snd (uploadChunk w cfg req st')) = image_table (snd (uploadChunk w cfg req st))"
proof -
  obtain sid st1 where g: "get_or_create_session w req st = (sid, st1)"
    by (cases "get_or_create_session w req st")
  obtain sid' st1' where g': "get_or_create_session w req st' = (sid', st1')"
    by (cases "get_or_create_session w req st'")
  have sid: "sid' = sid"
    using get_or_create_session_cong [OF f, of w] by (simp add: g g')
  have c1: "chunkStorage st1' = chunkStorage st1"
    using chunkStorage_get_or_create [of w req st] chunkStorage_get_or_create [of w req st'] c
    by (simp add: g g')
  have i1: "image_table st1' = image_table st1"
    using image_table_get_or_create [of w req st] image_table_get_or_create [of w req st'] i
    by (simp add: g g')
  show ?thesis
  proof (cases "store_chunk w req sid st1")
    case (Inl e)
    then have "store_chunk w req sid st1' = Inl e"
      by (rule store_chunk_Inl_cong) (simp add: c1)
    with Inl show ?thesis by (simp add: uploadChunk_def g g' sid i1)
  next
    case (Inr p)
    obtain chunks st2 where p: "p = (chunks, st2)" by (cases p)
    have s: "store_chunk w req sid st1 = Inr (chunks, st2)" using Inr p by simp
    define st2' where "st2' = st1'\<lparr>chunkStorage := (chunkStorage st1')(sid \<mapsto> chunks)\<rparr>"
    have s': "store_chunk w req sid st1' = Inr (chunks, st2')"
      unfolding st2'_def using s by (rule store_chunk_Inr_cong) (simp add: c1)
    define st3 where
      "st3 = uploadSession_update sid (\<lambda>row. row\<lparr>uploadedChunks := js_add (chunkIndex req) 1\<rparr>) st2"
    define st3' where
      "st3' = uploadSession_update sid (\<lambda>row. row\<lparr>uploadedChunks := js_add (chunkIndex req) 1\<rparr>) st2'"
    have i3: "image_table st3' = image_table st3"
      using store_chunk_image_table [OF s] i1
      by (simp add: st3_def st3'_def st2'_def uploadSession_update_def)
    obtain r st4 where pc: "process_chunks w cfg req sid chunks st3 = (r, st4)"
      by (cases "process_chunks w cfg req sid chunks st3")
    obtain r' st4' where pc': "process_chunks w cfg req sid chunks st3' = (r', st4')"
      by (cases "process_chunks w cfg req sid chunks st3'")
    have r: "r' = r" and i4: "image_table st4' = image_table st4"
      using process_chunks_cong [OF i3, of w cfg req sid chunks] by (simp_all add: pc pc')
    show ?thesis
      by (cases r)
         (simp_all add: uploadChunk_def g g' sid s s' Let_def st3_def [symmetric]
            st3'_def [symmetric] allChunksReceived_always pc pc' r i4 image_table_mark_failed)
  qed
qed

text \<open>
  Claim C3, amended. A supplied \<open>sessionId\<close> that is unknown is handled exactly like a
  request without \<open>sessionId\<close>: a session row is created under the id the store assigns,
  from the \<open>filename\<close> and \<open>totalChunks\<close> of the request, and its \<open>uploadedChunks\<close> is set
  to \<open>chunkIndex + 1\<close>. A supplied \<open>sessionId\<close> that is found has its \<open>uploadedChunks\<close>
  set to \<open>chunkIndex + 1\<close> whatever the status of the row; the status is never read:
  with the status of any row changed to any other, the request gets the same answer and
  leaves the same image records. (The bounds on \<open>totalChunks\<close> say that
  \<open>new Array(totalChunks)\<close> does not throw.)
\<close>

theorem C3_unknown_session_is_created_and_status_is_not_read:
  "(uploadSession_table st sid = None \<longrightarrow>
      uploadChunk w cfg (req\<lparr>sessionId := Some sid\<rparr>) st =
        uploadChunk w cfg (req\<lparr>sessionId := None\<rparr>) st \<and>
      session_of w (req\<lparr>sessionId := Some sid\<rparr>) st = new_session_id w \<and>
      recorded_origin (snd (uploadChunk w cfg (req\<lparr>sessionId := Some sid\<rparr>) st))
        (new_session_id w) = Some (filename req, totalChunks req) \<and>
      (0 \<le> totalChunks req \<and> totalChunks req < 2 ^ 32 \<longrightarrow>
         recorded_progress (snd (uploadChunk w cfg (req\<lparr>sessionId := Some sid\<rparr>) st))
           (new_session_id w) = Some (js_add (chunkIndex req) 1))) \<and>
   (sid \<noteq> [] \<and> uploadSession_table st sid \<noteq> None \<and>
    0 \<le> totalChunks req \<and> totalChunks req < 2 ^ 32 \<longrightarrow>
      session_of w (req\<lparr>sessionId := Some sid\<rparr>) st = sid \<and>
      recorded_progress (snd (uploadChunk w cfg (req\<lparr>sessionId := Some sid\<rparr>) st)) sid =
        Some (js_add (chunkIndex req) 1)) \<and>
   fst (uploadChunk w cfg req (uploadSession_update sid (\<lambda>row. row\<lparr>us_status := status\<rparr>) st)) =
     fst (uploadChunk w cfg req st) \<and>
   image_table (snd (uploadChunk w cfg req
       (uploadSession_update sid (\<lambda>row. row\<lparr>us_status := status\<rparr>) st))) =
     image_table (snd (uploadChunk w cfg req st))"
proof -
  define req' where "req' = req\<lparr>sessionId := Some sid\<rparr>"
  have fields: "filename req' = filename req" "totalChunks req' = totalChunks req"
    "chunkIndex req' = chunkIndex req" "sessionId req' = Some sid"
    by (simp_all add: req'_def)
  have unknown:
    "uploadChunk w cfg req' st = uploadChunk w cfg (req\<lparr>sessionId := None\<rparr>) st \<and>
     session_of w req' st = new_session_id w \<and>
     recorded_origin (snd (uploadChunk w cfg req' st)) (new_session_id w) =
       Some (filename req, totalChunks req) \<and>
     (0 \<le> totalChunks req \<and> totalChunks req < 2 ^ 32 \<longrightarrow>
        recorded_progress (snd (uploadChunk w cfg req' st)) (new_session_id w) =
          Some (js_add (chunkIndex req) 1))"
    if none: "uploadSession_table st sid = None"
  proof -
    have e: "uploadChunk w cfg req' st = uploadChunk w cfg (req\<lparr>sessionId := None\<rparr>) st"
      unfolding req'_def using none by (rule uploadChunk_unknown_session)
    have g: "get_or_create_session w req' st = (new_session_id w, create_session w req' st)"
      using none
      by (simp add: get_or_create_session_def find_session_def fields)
    have s: "session_of w req' st = new_session_id w"
      by (simp add: session_of_def g)
    have o: "recorded_origin (snd (uploadChunk w cfg req' st)) (new_session_id w) =
               Some (filename req, totalChunks req)"
      using uploadChunk_keeps_origin [of w cfg req' st]
      by (simp add: s g recorded_origin_def create_session_def fields)
    have p: "recorded_progress (snd (uploadChunk w cfg req' st)) (new_session_id w) =
               Some (js_add (chunkIndex req) 1)"
      if "0 \<le> totalChunks req \<and> totalChunks req < 2 ^ 32"
      using uploadChunk_records_progress [of req' w cfg st] that by (simp add: s fields)
    show ?thesis using e s o p by blast
  qed
  have known:
    "session_of w req' st = sid \<and>
     recorded_progress (snd (uploadChunk w cfg req' st)) sid = Some (js_add (chunkIndex req) 1)"
    if k: "sid \<noteq> [] \<and> uploadSession_table st sid \<noteq> None \<and>
           0 \<le> totalChunks req \<and> totalChunks req < 2 ^ 32"
  proof -
    have s: "session_of w req' st = sid"
      unfolding req'_def using k by (intro find_session_known) simp_all
    show ?thesis
      using uploadChunk_records_progress [of req' w cfg st] k by (simp add: s fields)
  qed
  have blind:
    "fst (uploadChunk w cfg req (uploadSession_update sid (\<lambda>row. row\<lparr>us_status := status\<rparr>) st)) =
       fst (uploadChunk w cfg req st) \<and>
     image_table (snd (uploadChunk w cfg req
         (uploadSession_update sid (\<lambda>row. row\<lparr>us_status := status\<rparr>) st))) =
       image_table (snd (uploadChunk w cfg req st))"
    by (rule uploadChunk_cong)
       (simp_all add: find_session_status, simp_all add: uploadSession_update_def)
  show ?thesis
    using unknown known blind unfolding req'_def by blast
qed

theorem C3_witness:
  "uploadChunk portrait_world studio_config (chunk_request (Some ''ghost'') 3 1) empty_state =
     uploadChunk portrait_world studio_config (chunk_request None 3 1) empty_state \<and>
   recorded_origin (snd (uploadChunk portrait_world studio_config
      (chunk_request (Some ''ghost'') 3 1) empty_state)) ''session-1'' = Some (''face.jpg'', 3) \<and>
   recorded_progress (snd (uploadChunk portrait_world studio_config
      (chunk_request (Some ''ghost'') 3 1) empty_state)) ''session-1'' = Some 2 \<and>
   recorded_status finished_state ''session-0'' = Some COMPLETED \<and>
   recorded_progress (snd (uploadChunk portrait_world studio_config
      (chunk_request (Some ''session-0'') 3 1) finished_state)) ''session-0'' = Some 2 \<and>
   fst (uploadChunk portrait_world studio_config (chunk_request (Some ''session-0'') 3 1)
          finished_state) =
     fst (uploadChunk portrait_world studio_config (chunk_request (Some ''session-0'') 3 1)
          (uploadSession_update ''session-0'' (\<lambda>row. row\<lparr>us_status := IN_PROGRESS\<rparr>)
             finished_state))"
proof -
  have ghost:
    "uploadChunk portrait_world studio_config (chunk_request (Some ''ghost'') 3 1) empty_state =
       uploadChunk portrait_world studio_config (chunk_request None 3 1) empty_state \<and>
     recorded_origin (snd (uploadChunk portrait_world studio_config
        (chunk_request (Some ''ghost'') 3 1) empty_state)) ''session-1'' = Some (''face.jpg'', 3) \<and>
     recorded_progress (snd (uploadChunk portrait_world studio_config
        (chunk_request (Some ''ghost'') 3 1) empty_state)) ''session-1'' = Some 2"
    using C3_unknown_session_is_created_and_status_is_not_read
            [of empty_state "''ghost''" portrait_world studio_config "chunk_request None 3 1"
                IN_PROGRESS]
    by (auto simp add: empty_state_fields chunk_request_with_session chunk_request_fields
          portrait_world_fields js_add_examples)
  have terminal:
    "recorded_progress (snd (uploadChunk portrait_world studio_config
        (chunk_request (Some ''session-0'') 3 1) finished_state)) ''session-0'' = Some 2 \<and>
     fst (uploadChunk portrait_world studio_config (chunk_request (Some ''session-0'') 3 1)
            finished_state) =
       fst (uploadChunk portrait_world studio_config (chunk_request (Some ''session-0'') 3 1)
            (uploadSession_update ''session-0'' (\<lambda>row. row\<lparr>us_status := IN_PROGRESS\<rparr>)
               finished_state))"
    using C3_unknown_session_is_created_and_status_is_not_read
            [of finished_state "''session-0''" portrait_world studio_config
                "chunk_request (Some ''session-0'') 3 1" IN_PROGRESS]
    by (simp add: finished_state_fields chunk_request_with_session chunk_request_fields
          js_add_examples)
  have status: "recorded_status finished_state ''session-0'' = Some COMPLETED"
    by (simp add: recorded_status_def finished_state_fields completed_session_def)
  show ?thesis using ghost terminal status by blast
qed

text \<open>
  Where the claim fails. The portrait sent as the only chunk of an upload under an id
  the store has never seen is answered with the completed upload, and a session is
  created and left COMPLETED. The same request sent to a session that is already
  COMPLETED commits an image record and sets the progress of that session.
\<close>

theorem C3_counterexample:
  "uploadSession_table empty_state ''ghost'' = None \<and>
   fst (uploadChunk portrait_world studio_config (chunk_request (Some ''ghost'') 1 0)
          empty_state) =
     Completed (new_image_row portrait_world ''face.jpg'' ''image/jpeg'' [65, 66, 67] 800 600
        \<lparr>isValid = True, errors = [],
         metadata = \<lparr>md_width = 800, md_height = 600, md_size = 3,
                     md_format = ''jpeg'', md_blurScore = Some (Num 400),
                     md_faceCount = Some 1, md_faceSize = Some (1 / 4),
                     md_hash = Some ''digest''\<rparr>\<rparr>) ''https://signed'' \<and>
   recorded_status (snd (uploadChunk portrait_world studio_config
      (chunk_request (Some ''ghost'') 1 0) empty_state)) ''session-1'' = Some COMPLETED \<and>
   recorded_status finished_state ''session-0'' = Some COMPLETED \<and>
   length (image_table finished_state) = 0 \<and>
   length (image_table (snd (uploadChunk portrait_world studio_config
      (chunk_request (Some ''session-0'') 1 0) finished_state))) = 1 \<and>
   recorded_progress (snd (uploadChunk portrait_world studio_config
      (chunk_request (Some ''session-0'') 1 0) finished_state)) ''session-0'' = Some 1"
proof -
  have a: "array_set [None] 0 b = [Some b]" for b :: buffer
    by (simp add: array_set_def)
  have l: "length [65, 66, 67 :: byte] = 3"
    by simp
  have p: "process_chunks portrait_world studio_config (chunk_request s 1 0) sid
             [Some [65, 66, 67]] st =
           commit_chunks portrait_world (chunk_request s 1 0) sid [65, 66, 67] ''image/jpeg''
             \<lparr>isValid = True, errors = [],
              metadata = \<lparr>md_width = 800, md_height = 600, md_size = 3,
                          md_format = ''jpeg'', md_blurScore = Some (Num 400),
                          md_faceCount = Some 1, md_faceSize = Some (1 / 4),
                          md_hash = Some ''digest''\<rparr>\<rparr> st"
    if "image_table st = []" for s sid st
    using process_chunks_portrait [of st "[65, 66, 67]" s sid, unfolded l] that by simp
  have e: "uploadChunk portrait_world studio_config (chunk_request (Some ''ghost'') 1 0)
             empty_state =
           uploadChunk portrait_world studio_config (chunk_request None 1 0) empty_state"
    using uploadChunk_unknown_session
            [of empty_state "''ghost''" portrait_world studio_config "chunk_request None 1 0"]
    by (simp add: empty_state_fields chunk_request_with_session)
  have ghost:
    "fst (uploadChunk portrait_world studio_config (chunk_request (Some ''ghost'') 1 0)
            empty_state) =
       Completed (new_image_row portrait_world ''face.jpg'' ''image/jpeg'' [65, 66, 67] 800 600
          \<lparr>isValid = True, errors = [],
           metadata = \<lparr>md_width = 800, md_height = 600, md_size = 3,
                       md_format = ''jpeg'', md_blurScore = Some (Num 400),
                       md_faceCount = Some 1, md_faceSize = Some (1 / 4),
                       md_hash = Some ''digest''\<rparr>\<rparr>) ''https://signed''"
    unfolding e by (rule single_chunk_portrait(1))
  have ghost_status:
    "recorded_status (snd (uploadChunk portrait_world studio_config
        (chunk_request (Some ''ghost'') 1 0) empty_state)) ''session-1'' = Some COMPLETED"
    unfolding e by (simp add: recorded_status_def single_chunk_portrait(3))
  have terminal:
    "recorded_status finished_state ''session-0'' = Some COMPLETED \<and>
     length (image_table finished_state) = 0 \<and>
     length (image_table (snd (uploadChunk portrait_world studio_config
        (chunk_request (Some ''session-0'') 1 0) finished_state))) = 1 \<and>
     recorded_progress (snd (uploadChunk portrait_world studio_config
        (chunk_request (Some ''session-0'') 1 0) finished_state)) ''session-0'' = Some 1"
    by (simp add: uploadChunk_def get_or_create_session_def find_session_def
          store_chunk_def new_Array_def chunk_request_fields finished_state_fields
          portrait_world_fields Let_def a allChunksReceived_always p commit_chunks_portrait
          recorded_status_def recorded_progress_def uploadSession_update_def
          completed_session_def js_add_examples)
  have none: "uploadSession_table empty_state ''ghost'' = None"
    by (simp add: empty_state_fields)
  show ?thesis using none ghost ghost_status terminal by blast
qed

section \<open>The duplicate check when the lookup throws\<close>















end
